theory Spec2Isabelle
  imports Complex_Main "HOL-Library.Word"
begin

unbundle bit_operations_syntax

section \<open>Machine types and handles\<close>

type_synonym uint8 = "8 word"
type_synonym uint16 = "16 word"
type_synonym int16 = "16 word"
type_synonym uint32 = "32 word"
type_synonym int32 = "32 word"
type_synonym uint64 = "64 word"

text \<open>
  Vulkan handles, X11 resource ids and pointers are numbers; \<open>0\<close> is
  \<^verbatim>\<open>VK_NULL_HANDLE\<close>, \<^verbatim>\<open>XCB_NONE\<close> and \<^verbatim>\<open>NULL\<close>. A heap array reached through a pointer
  field is a list option, \<open>None\<close> being the \<^verbatim>\<open>NULL\<close> pointer.
\<close>

type_synonym handle = nat

abbreviation VK_NULL_HANDLE :: handle where
  "VK_NULL_HANDLE \<equiv> 0"

abbreviation XCB_NONE :: uint32 where
  "XCB_NONE \<equiv> 0"

text \<open>
  What stops a call instead of letting it return: a failed \<^verbatim>\<open>assert\<close> (the process
  aborts), an access outside an array or through \<^verbatim>\<open>NULL\<close>, and a remainder by zero.
\<close>

datatype fault = AssertionFailed | MemoryFault | DivisionByZero

section \<open>Data model\<close>

datatype bind_pixmap_strategy = BIND_PIXMAP_STRATEGY_DRI3 | BIND_PIXMAP_STRATEGY_SHM

datatype VkImageLayout =
    VK_IMAGE_LAYOUT_UNDEFINED
  | VK_IMAGE_LAYOUT_COLOR_ATTACHMENT_OPTIMAL
  | VK_IMAGE_LAYOUT_PRESENT_SRC_KHR
  | VK_IMAGE_LAYOUT_SHADER_READ_ONLY_OPTIMAL
  | VK_IMAGE_LAYOUT_TRANSFER_DST_OPTIMAL

datatype VkComponentSwizzle =
    VK_COMPONENT_SWIZZLE_ONE
  | VK_COMPONENT_SWIZZLE_R
  | VK_COMPONENT_SWIZZLE_G
  | VK_COMPONENT_SWIZZLE_B
  | VK_COMPONENT_SWIZZLE_A

record VkComponentMapping =
  swz_r :: VkComponentSwizzle
  swz_g :: VkComponentSwizzle
  swz_b :: VkComponentSwizzle
  swz_a :: VkComponentSwizzle

datatype VkShaderStage = VK_SHADER_STAGE_VERTEX_BIT | VK_SHADER_STAGE_FRAGMENT_BIT

datatype VkImageTiling = VK_IMAGE_TILING_OPTIMAL | VK_IMAGE_TILING_DRM_FORMAT_MODIFIER_EXT

text \<open>\<^verbatim>\<open>pixman_box32_t\<close>, and a pixman region as its bounding box and its rectangles.\<close>

record pixman_box32 =
  box_x1 :: int32
  box_y1 :: int32
  box_x2 :: int32
  box_y2 :: int32

record region_t =
  extents :: pixman_box32
  rects :: "pixman_box32 list"

record coord_t =
  coord_x :: int32
  coord_y :: int32

record color =
  red :: real
  green :: real
  blue :: real
  alpha :: real

record VkRect2D =
  offset_x :: int32
  offset_y :: int32
  extent_width :: uint32
  extent_height :: uint32

datatype push_data = PushU32 "uint32 list" | PushI32 "int32 list" | PushF32 color

text \<open>The commands recorded into the one command buffer (the \<^verbatim>\<open>vkCmd*\<close> calls).\<close>

datatype cmd =
    CmdPipelineBarrier handle VkImageLayout VkImageLayout
  | CmdCopyBufferToImage handle handle int32 int32 uint32 uint32
  | CmdBeginRendering VkRect2D handle
  | CmdBindPipeline handle
  | CmdSetScissor VkRect2D
  | CmdBindDescriptorSets handle handle
  | CmdPushConstants handle VkShaderStage nat nat push_data
  | CmdDraw nat nat nat nat
  | CmdEndRendering

text \<open>Requests to the X server, and the System V shared-memory calls.\<close>

datatype x_call =
    XcbShmGetImage uint32 int16 int16 uint16 uint16 uint32
  | XcbDri3BuffersFromPixmap uint32
  | XcbGetGeometry uint32
  | XcbShmAttach uint32 int32
  | XcbShmDetach uint32
  | XcbFreePixmap uint32
  | XcbConnect
  | XcbDisconnect handle

datatype sys_call = Shmget uint64 | Shmat int32 | Shmdt uint64 | ShmctlRmid int32

text \<open>
  The kinds of Vulkan object. \<open>VkCreate k\<close> stands for the \<^verbatim>\<open>vkCreate*\<close> or
  \<^verbatim>\<open>vkAllocate*\<close> call of the kind \<open>k\<close> where its arguments do not matter here, and
  \<open>VkDestroy k h\<close> for the \<^verbatim>\<open>vkDestroy*\<close> or \<^verbatim>\<open>vkFree*\<close> call on the object \<open>h\<close>.
\<close>

datatype object_kind =
    Instance | Surface | Device | Fence | Semaphore | Swapchain | SwapchainImageView
  | DescriptorPool | DescriptorSetLayout | Sampler | PipelineLayout | Pipeline
  | CommandPool | CommandBuffer | Image | ImageView | Buffer | DeviceMemory | DescriptorSet

text \<open>
  The calls the backend makes on the Vulkan driver, the X server and the kernel, with the
  arguments that matter here.
\<close>

datatype api_call =
    VkCmd cmd
  | X x_call
  | Sys sys_call
  | VkWaitForFences handle
  | VkResetFences handle
  | VkResetCommandBuffer handle
  | VkBeginCommandBuffer handle
  | VkEndCommandBuffer handle
  | VkQueueSubmit handle handle "handle list" "handle list" handle
  | VkQueuePresentKHR handle handle nat
  | VkAcquireNextImageKHR handle handle handle
  | VkDeviceWaitIdle handle
  | VkCreate object_kind
  | VkDestroy object_kind handle
  | VkCreateDevice handle "string list"
  | VkCreateFence bool "handle option"
  | VkCreateSwapchainKHR nat bool
  | VkCreateDescriptorPool nat nat
  | VkCreateImage uint16 uint16 VkImageTiling nat
  | VkAllocateMemory uint64 nat
  | VkBindImageMemory handle handle
  | VkCreateBuffer uint64
  | VkBindBufferMemory handle handle
  | VkCreateImageView handle VkComponentMapping "handle option"
  | VkAllocateDescriptorSets handle
  | VkUpdateDescriptorSets handle handle handle

text \<open>
  \<^verbatim>\<open>struct vulkan_data\<close>, without \<^verbatim>\<open>base\<close>; \<^verbatim>\<open>instance\<close> is \<open>vk_instance\<close> here, and the
  image count and the image index, which only count and index the arrays, are natural
  numbers. After the fields of the C struct come three fields that are not in it:
  \<open>calls\<close>, the external calls made so far, oldest first, and the driver's bookkeeping
  of the descriptor pool (the \<^verbatim>\<open>maxSets\<close> it was created with and the number of sets now
  allocated from it).
\<close>

record vulkan_data =
  vk_instance :: handle
  surface_connection :: handle
  surface :: handle
  bind_pixmap_strategy :: bind_pixmap_strategy
  physical_device :: handle
  min_imported_host_pointer_alignment :: uint64
  queue_family_index :: uint32
  device :: handle
  queue :: handle
  acquire_next_image_fence :: handle
  queue_submit_fence :: handle
  semaphore :: handle
  width :: uint32
  height :: uint32
  swapchain :: handle
  swapchain_image_count :: nat
  swapchain_images :: "handle list option"
  swapchain_image_layouts :: "VkImageLayout list option"
  swapchain_image_views :: "handle list option"
  buffer_ages :: "int32 list option"
  swapchain_image_index :: nat
  descriptor_pool :: handle
  descriptor_set_layout :: handle
  sampler :: handle
  compose_pipeline_layout :: handle
  compose_pipeline :: handle
  fill_pipeline_layout :: handle
  fill_pipeline :: handle
  command_pool :: handle
  command_buffer :: handle
  calls :: "api_call list"
  pool_max_sets :: nat
  pool_allocated_sets :: nat

text \<open>
  \<^verbatim>\<open>struct vulkan_image\<close>; its \<^verbatim>\<open>width\<close> and \<^verbatim>\<open>height\<close> are \<open>img_width\<close> and \<open>img_height\<close>
  here. \<open>shm_address\<close> is a pointer, \<^verbatim>\<open>(void *)-1\<close> being \<open>- 1\<close>.
\<close>

record vulkan_image =
  refcount :: int32
  has_alpha :: bool
  pixmap :: uint32
  owned :: bool
  img_width :: uint16
  img_height :: uint16
  image :: handle
  memory :: handle
  shm_id :: int32
  shm_address :: uint64
  shm_segment :: uint32
  staging_buffer :: handle
  staging_memory :: handle
  image_view :: handle
  descriptor_set :: handle

definition emit :: "api_call list \<Rightarrow> vulkan_data \<Rightarrow> vulkan_data" where
  "emit cs vd = vd\<lparr>calls := calls vd @ cs\<rparr>"

text \<open>The zeroed structures that \<^verbatim>\<open>ccalloc\<close> returns.\<close>

definition vd_zero :: vulkan_data where
  "vd_zero =
     \<lparr>vk_instance = 0, surface_connection = 0, surface = 0,
      bind_pixmap_strategy = BIND_PIXMAP_STRATEGY_DRI3, physical_device = 0,
      min_imported_host_pointer_alignment = 0, queue_family_index = 0, device = 0,
      queue = 0, acquire_next_image_fence = 0, queue_submit_fence = 0, semaphore = 0,
      width = 0, height = 0, swapchain = 0, swapchain_image_count = 0,
      swapchain_images = None, swapchain_image_layouts = None,
      swapchain_image_views = None, buffer_ages = None, swapchain_image_index = 0,
      descriptor_pool = 0, descriptor_set_layout = 0, sampler = 0,
      compose_pipeline_layout = 0, compose_pipeline = 0, fill_pipeline_layout = 0,
      fill_pipeline = 0, command_pool = 0, command_buffer = 0,
      calls = [], pool_max_sets = 0, pool_allocated_sets = 0\<rparr>"

definition vi_zero :: vulkan_image where
  "vi_zero =
     \<lparr>refcount = 0, has_alpha = False, pixmap = 0, owned = False, img_width = 0,
      img_height = 0, image = 0, memory = 0, shm_id = 0, shm_address = 0, shm_segment = 0,
      staging_buffer = 0, staging_memory = 0, image_view = 0, descriptor_set = 0\<rparr>"

text \<open>Reading \<^verbatim>\<open>a[i]\<close> through a pointer field.\<close>

definition array_get :: "'a list option \<Rightarrow> nat \<Rightarrow> fault + 'a" where
  "array_get a i =
     (case a of None \<Rightarrow> Inl MemoryFault
      | Some xs \<Rightarrow> if i < length xs then Inr (xs ! i) else Inl MemoryFault)"

definition array_set :: "'a list option \<Rightarrow> nat \<Rightarrow> 'a \<Rightarrow> fault + 'a list option" where
  "array_set a i v =
     (case a of None \<Rightarrow> Inl MemoryFault
      | Some xs \<Rightarrow> if i < length xs then Inr (Some (xs[i := v])) else Inl MemoryFault)"

section \<open>Frame sequencer\<close>

subsection \<open>\<^verbatim>\<open>vk_prepare\<close>\<close>

text \<open>
  The results of the five Vulkan calls are only logged, so they do not appear. The
  \<open>region\<close> argument is unused.
\<close>

definition vk_prepare :: "vulkan_data \<Rightarrow> fault + vulkan_data" where
  "vk_prepare vd =
     (let vd1 = emit [VkWaitForFences (queue_submit_fence vd),
                      VkResetFences (queue_submit_fence vd),
                      VkResetCommandBuffer (command_buffer vd),
                      VkBeginCommandBuffer (command_buffer vd)] vd
      in case array_get (swapchain_image_layouts vd1) (swapchain_image_index vd1) of
           Inl f \<Rightarrow> Inl f
         | Inr old_layout \<Rightarrow>
        (case array_get (swapchain_images vd1) (swapchain_image_index vd1) of
           Inl f \<Rightarrow> Inl f
         | Inr img \<Rightarrow>
        (let vd2 = emit [VkCmd (CmdPipelineBarrier img old_layout
                           VK_IMAGE_LAYOUT_COLOR_ATTACHMENT_OPTIMAL)] vd1
         in case array_set (swapchain_image_layouts vd2) (swapchain_image_index vd2)
                   VK_IMAGE_LAYOUT_COLOR_ATTACHMENT_OPTIMAL of
              Inl f \<Rightarrow> Inl f
            | Inr ls \<Rightarrow> Inr (vd2\<lparr>swapchain_image_layouts := ls\<rparr>))))"

subsection \<open>\<^verbatim>\<open>vk_compose\<close> and \<^verbatim>\<open>vk_fill\<close>\<close>

definition render_area_of :: "pixman_box32 \<Rightarrow> VkRect2D" where
  "render_area_of e =
     \<lparr>offset_x = box_x1 e, offset_y = box_y1 e,
      extent_width = box_x2 e - box_x1 e, extent_height = box_y2 e - box_y1 e\<rparr>"

definition push_rect :: "handle \<Rightarrow> pixman_box32 \<Rightarrow> cmd" where
  "push_rect layout r =
     CmdPushConstants layout VK_SHADER_STAGE_VERTEX_BIT 8 16
       (PushI32 [box_x1 r, box_y1 r, box_x2 r, box_y2 r])"

text \<open>The loop over \<^verbatim>\<open>rects[i]\<close>, \<^verbatim>\<open>i < n_rects\<close>: one push of the bounds, one draw.\<close>

fun draw_rects :: "handle \<Rightarrow> pixman_box32 list \<Rightarrow> cmd list" where
  "draw_rects layout [] = []"
| "draw_rects layout (r # rs) = push_rect layout r # CmdDraw 4 1 0 0 # draw_rects layout rs"

text \<open>
  The shared-memory branch of \<^verbatim>\<open>vk_compose\<close>: the read-back of the bounding rectangle
  into the segment and its copy into the image. \<^verbatim>\<open>x\<close>, \<^verbatim>\<open>y\<close> are cut to 16 bits and
  sign-extended again for the copy; a missing reply is only logged.
\<close>

definition compose_shm_upload :: "vulkan_image \<Rightarrow> coord_t \<Rightarrow> pixman_box32 \<Rightarrow> api_call list" where
  "compose_shm_upload vi image_coords e =
     (let x = (ucast (box_x1 e - coord_x image_coords) :: int16);
          y = (ucast (box_y1 e - coord_y image_coords) :: int16);
          w = (ucast (box_x2 e - box_x1 e) :: uint16);
          h = (ucast (box_y2 e - box_y1 e) :: uint16)
      in [X (XcbShmGetImage (pixmap vi) x y w h (shm_segment vi)),
          VkCmd (CmdPipelineBarrier (image vi) VK_IMAGE_LAYOUT_SHADER_READ_ONLY_OPTIMAL
            VK_IMAGE_LAYOUT_TRANSFER_DST_OPTIMAL),
          VkCmd (CmdCopyBufferToImage (staging_buffer vi) (image vi) (scast x) (scast y)
            (ucast w) (ucast h)),
          VkCmd (CmdPipelineBarrier (image vi) VK_IMAGE_LAYOUT_TRANSFER_DST_OPTIMAL
            VK_IMAGE_LAYOUT_SHADER_READ_ONLY_OPTIMAL)])"

text \<open>The commands of the render pass of \<^verbatim>\<open>vk_compose\<close>, from begin to end.\<close>

definition compose_pass ::
  "vulkan_data \<Rightarrow> vulkan_image \<Rightarrow> coord_t \<Rightarrow> region_t \<Rightarrow> handle \<Rightarrow> cmd list" where
  "compose_pass vd vi image_coords reg_paint view =
     [CmdBeginRendering (render_area_of (extents reg_paint)) view,
      CmdBindPipeline (compose_pipeline vd),
      CmdSetScissor (render_area_of (extents reg_paint)),
      CmdBindDescriptorSets (compose_pipeline_layout vd) (descriptor_set vi),
      CmdPushConstants (compose_pipeline_layout vd) VK_SHADER_STAGE_VERTEX_BIT 0 8
        (PushU32 [width vd, height vd]),
      CmdPushConstants (compose_pipeline_layout vd) VK_SHADER_STAGE_VERTEX_BIT 24 8
        (PushI32 [coord_x image_coords, coord_y image_coords])]
     @ draw_rects (compose_pipeline_layout vd) (rects reg_paint)
     @ [CmdEndRendering]"

text \<open>
  \<^verbatim>\<open>mask\<close>, \<^verbatim>\<open>mask_coords\<close> and \<^verbatim>\<open>reg_visible\<close> are unused. \<^verbatim>\<open>n_rects\<close> is the length of
  the rectangle list, so the \<^verbatim>\<open>assert(n_rects >= 0)\<close> of the early return cannot fail.
\<close>

definition vk_compose ::
  "vulkan_data \<Rightarrow> vulkan_image \<Rightarrow> coord_t \<Rightarrow> region_t \<Rightarrow> fault + vulkan_data" where
  "vk_compose vd vi image_coords reg_paint =
     (if length (rects reg_paint) < 1 then Inr vd
      else
        let vd1 = (if bind_pixmap_strategy vd = BIND_PIXMAP_STRATEGY_SHM
                   then emit (compose_shm_upload vi image_coords (extents reg_paint)) vd
                   else vd)
        in case array_get (swapchain_image_views vd1) (swapchain_image_index vd1) of
             Inl f \<Rightarrow> Inl f
           | Inr view \<Rightarrow>
               Inr (emit (map VkCmd (compose_pass vd1 vi image_coords reg_paint view)) vd1))"

definition fill_pass :: "vulkan_data \<Rightarrow> color \<Rightarrow> region_t \<Rightarrow> handle \<Rightarrow> cmd list" where
  "fill_pass vd c region view =
     [CmdBeginRendering (render_area_of (extents region)) view,
      CmdBindPipeline (fill_pipeline vd),
      CmdSetScissor (render_area_of (extents region)),
      CmdPushConstants (fill_pipeline_layout vd) VK_SHADER_STAGE_VERTEX_BIT 0 8
        (PushU32 [width vd, height vd]),
      CmdPushConstants (fill_pipeline_layout vd) VK_SHADER_STAGE_FRAGMENT_BIT 32 16
        (PushF32 c)]
     @ draw_rects (fill_pipeline_layout vd) (rects region)
     @ [CmdEndRendering]"

definition vk_fill :: "vulkan_data \<Rightarrow> color \<Rightarrow> region_t \<Rightarrow> fault + vulkan_data" where
  "vk_fill vd c region =
     (if length (rects region) < 1 then Inr vd
      else
        case array_get (swapchain_image_views vd) (swapchain_image_index vd) of
          Inl f \<Rightarrow> Inl f
        | Inr view \<Rightarrow> Inr (emit (map VkCmd (fill_pass vd c region view)) vd))"

subsection \<open>\<^verbatim>\<open>vk_present\<close> and \<^verbatim>\<open>vk_buffer_age\<close>\<close>

text \<open>
  The loop \<^verbatim>\<open>for (i = 0; i < swapchain_image_count; i++)\<close> over the buffer ages, given the
  indices still to visit. \<^verbatim>\<open>buffer_ages[i]\<close> is read only when \<^verbatim>\<open>i != swapchain_image_index\<close>;
  \<^verbatim>\<open>++\<close> on the 32-bit age is addition modulo \<open>2 ^ 32\<close>.
\<close>

fun bump_ages :: "nat \<Rightarrow> nat list \<Rightarrow> int32 list \<Rightarrow> fault + int32 list" where
  "bump_ages idx [] ages = Inr ages"
| "bump_ages idx (i # is) ages =
     (if i \<noteq> idx then
        (if i < length ages then
           bump_ages idx is (if ages ! i \<noteq> - 1 then ages[i := ages ! i + 1] else ages)
         else Inl MemoryFault)
      else bump_ages idx is ages)"

text \<open>
  The update of the buffer ages in \<^verbatim>\<open>vk_present\<close>: the age of the presented image is set
  to 1, then the loop runs.
\<close>

definition update_buffer_ages :: "nat \<Rightarrow> nat \<Rightarrow> int32 list option \<Rightarrow> fault + int32 list" where
  "update_buffer_ages idx n a =
     (case a of None \<Rightarrow> Inl MemoryFault
      | Some ages \<Rightarrow>
          if idx < length ages then bump_ages idx [0..<n] (ages[idx := 1])
          else Inl MemoryFault)"

text \<open>
  \<open>acquire\<close> is what \<^verbatim>\<open>vkAcquireNextImageKHR\<close> answers: the index of the next image, or
  \<open>None\<close> when it fails, which is only logged and leaves \<^verbatim>\<open>swapchain_image_index\<close> as it
  was. The other results are only logged. The \<open>region\<close> argument is unused.
\<close>

definition vk_present :: "nat option \<Rightarrow> vulkan_data \<Rightarrow> fault + vulkan_data" where
  "vk_present acquire vd =
     (let idx = swapchain_image_index vd in
      case array_get (swapchain_images vd) idx of
        Inl f \<Rightarrow> Inl f
      | Inr img \<Rightarrow>
     (case array_set (swapchain_image_layouts vd) idx VK_IMAGE_LAYOUT_PRESENT_SRC_KHR of
        Inl f \<Rightarrow> Inl f
      | Inr ls \<Rightarrow>
     (case update_buffer_ages idx (swapchain_image_count vd) (buffer_ages vd) of
        Inl f \<Rightarrow> Inl f
      | Inr ages \<Rightarrow>
          Inr ((emit [VkCmd (CmdPipelineBarrier img VK_IMAGE_LAYOUT_COLOR_ATTACHMENT_OPTIMAL
                        VK_IMAGE_LAYOUT_PRESENT_SRC_KHR),
                      VkEndCommandBuffer (command_buffer vd),
                      VkQueueSubmit (queue vd) (command_buffer vd) [semaphore vd]
                        [semaphore vd] (queue_submit_fence vd),
                      VkQueuePresentKHR (queue vd) (swapchain vd) idx,
                      VkAcquireNextImageKHR (swapchain vd) (semaphore vd)
                        (acquire_next_image_fence vd),
                      VkWaitForFences (acquire_next_image_fence vd),
                      VkResetFences (acquire_next_image_fence vd)] vd)
               \<lparr>swapchain_image_layouts := ls,
                buffer_ages := Some ages,
                swapchain_image_index :=
                  (case acquire of None \<Rightarrow> idx | Some next \<Rightarrow> next)\<rparr>))))"

definition vk_buffer_age :: "vulkan_data \<Rightarrow> fault + int32" where
  "vk_buffer_age vd = array_get (buffer_ages vd) (swapchain_image_index vd)"

section \<open>Shared-memory segment size\<close>

text \<open>
  The size computed in \<^verbatim>\<open>vk_bind_pixmap_shm\<close> from the 16-bit width and height and the
  alignment. \<^verbatim>\<open>size_t\<close> and \<^verbatim>\<open>VkDeviceSize\<close> are 64-bit unsigned, every operation wraps
  modulo \<open>2 ^ 64\<close>. The remainder by a zero alignment is a fault in
  \<open>vk_bind_pixmap_shm\<close> below.
\<close>

definition shm_size :: "uint16 \<Rightarrow> uint16 \<Rightarrow> uint64 \<Rightarrow> uint64" where
  "shm_size w h a =
     (let size = (ucast w :: uint64) * ucast h * 4
      in (size - 1) + a - (size - 1) mod a)"

section \<open>Image binder\<close>

subsection \<open>What the driver, the X server and the kernel answer\<close>

text \<open>
  \<^verbatim>\<open>xcb_dri3_buffers_from_pixmap_reply_t\<close> with its three arrays, and
  \<^verbatim>\<open>VkMemoryRequirements\<close>.
\<close>

record dri3_reply =
  r_width :: uint16
  r_height :: uint16
  r_nfd :: uint8
  r_modifier :: uint64
  r_offsets :: "uint32 list"
  r_strides :: "uint32 list"
  r_buffers :: "int32 list"

record memory_requirements =
  mr_size :: uint64
  mr_memoryTypeBits :: uint32

text \<open>
  The answers to the calls of one \<^verbatim>\<open>vk_bind_pixmap\<close>, in the order of the calls. A
  \<open>handle option\<close> is \<^verbatim>\<open>VK_SUCCESS\<close> with the new handle, or a failure; a missing reply is
  \<open>None\<close>. \<open>assertions_enabled\<close> says whether the build keeps \<^verbatim>\<open>assert\<close> (no
  \<^verbatim>\<open>NDEBUG\<close>).
\<close>

record bind_driver =
  assertions_enabled :: bool
  dri3_buffers_from_pixmap :: "dri3_reply option"
  get_geometry :: "(uint16 \<times> uint16) option"
  create_image :: "handle option"
  image_memory_requirements :: memory_requirements
  memory_types :: "uint32 list"
  memory_fd_properties :: "uint32 option"
  allocate_image_memory :: "handle option"
  bind_image_memory :: bool
  shmget_result :: int32
  shmat_result :: uint64
  new_xid :: uint32
  shm_attach_ok :: bool
  create_buffer :: "handle option"
  buffer_memory_requirements :: memory_requirements
  memory_host_pointer_properties :: "uint32 option"
  allocate_staging_memory :: "handle option"
  bind_buffer_memory :: bool
  create_image_view :: "handle option"
  allocate_descriptor_set :: "handle option"
  wait_for_fences :: bool
  reset_fences :: bool
  reset_command_buffer :: bool
  begin_command_buffer :: bool
  end_command_buffer :: bool
  queue_submit :: bool

abbreviation VK_MEMORY_PROPERTY_DEVICE_LOCAL_BIT :: uint32 where
  "VK_MEMORY_PROPERTY_DEVICE_LOCAL_BIT \<equiv> 1"

abbreviation VK_MEMORY_PROPERTY_HOST_VISIBLE_BIT :: uint32 where
  "VK_MEMORY_PROPERTY_HOST_VISIBLE_BIT \<equiv> 2"

text \<open>
  The search for a memory type, from index \<open>i\<close> on: the first type whose bit is set in
  \<open>bits\<close> and whose property flags have \<open>flag\<close>. \<open>None\<close> is the \<^verbatim>\<open>UINT32_MAX\<close> the loop
  starts with.
\<close>

fun find_memory_type :: "uint32 \<Rightarrow> uint32 \<Rightarrow> uint32 list \<Rightarrow> nat \<Rightarrow> nat option" where
  "find_memory_type bits flag [] i = None"
| "find_memory_type bits flag (t # ts) i =
     (if bit bits i \<and> t AND flag \<noteq> 0 then Some i
      else find_memory_type bits flag ts (Suc i))"

text \<open>
  The driver's side of \<^verbatim>\<open>vkAllocateDescriptorSets\<close> on the one pool: a pool that already
  holds the \<^verbatim>\<open>maxSets\<close> it was created with has no room for a further set
  (\<^verbatim>\<open>VK_ERROR_OUT_OF_POOL_MEMORY\<close>); otherwise the driver answers as it does.
\<close>

definition pool_allocate :: "bind_driver \<Rightarrow> vulkan_data \<Rightarrow> handle option" where
  "pool_allocate e vd =
     (if pool_allocated_sets vd < pool_max_sets vd then allocate_descriptor_set e else None)"

subsection \<open>\<^verbatim>\<open>vk_bind_pixmap_dri3\<close>\<close>

text \<open>
  The result is the returned flag with the image and the backend as the call leaves them.
  \<^verbatim>\<open>offsets[0]\<close>, \<^verbatim>\<open>strides[0]\<close> and \<^verbatim>\<open>buffers[0]\<close> are read from the arrays of the reply.
\<close>

definition vk_bind_pixmap_dri3 ::
  "bind_driver \<Rightarrow> vulkan_data \<Rightarrow> vulkan_image \<Rightarrow> fault + bool \<times> vulkan_image \<times> vulkan_data" where
  "vk_bind_pixmap_dri3 e vd vi =
     (let vd1 = emit [X (XcbDri3BuffersFromPixmap (pixmap vi))] vd in
      case dri3_buffers_from_pixmap e of
        None \<Rightarrow> Inr (False, vi, vd1)
      | Some r \<Rightarrow>
     (let vi1 = vi\<lparr>img_width := r_width r, img_height := r_height r\<rparr> in
      if assertions_enabled e \<and> r_nfd r \<noteq> 1 then Inl AssertionFailed
      else if r_offsets r = [] \<or> r_strides r = [] then Inl MemoryFault
      else
     (let vd2 = emit [VkCreateImage (img_width vi1) (img_height vi1)
                        VK_IMAGE_TILING_DRM_FORMAT_MODIFIER_EXT (unat (r_nfd r))] vd1 in
      case create_image e of
        None \<Rightarrow> Inr (False, vi1, vd2)
      | Some img \<Rightarrow>
     (let vi2 = vi1\<lparr>image := img\<rparr> in
      if r_buffers r = [] then Inl MemoryFault
      else
      case memory_fd_properties e of
        None \<Rightarrow> Inr (False, vi2, vd2)
      | Some fd_bits \<Rightarrow>
     (case find_memory_type (mr_memoryTypeBits (image_memory_requirements e) AND fd_bits)
             VK_MEMORY_PROPERTY_DEVICE_LOCAL_BIT (memory_types e) 0 of
        None \<Rightarrow> Inr (False, vi2, vd2)
      | Some memory_type_index \<Rightarrow>
     (let vd3 = emit [VkAllocateMemory (mr_size (image_memory_requirements e))
                        memory_type_index] vd2 in
      case allocate_image_memory e of
        None \<Rightarrow> Inr (False, vi2, vd3)
      | Some mem \<Rightarrow>
          Inr (bind_image_memory e, vi2\<lparr>memory := mem\<rparr>,
               emit [VkBindImageMemory img mem] vd3)))))))"

subsection \<open>\<^verbatim>\<open>vk_release_image_shm\<close> and \<^verbatim>\<open>vk_release_image\<close>\<close>

definition vk_release_image_shm :: "vulkan_data \<Rightarrow> vulkan_image \<Rightarrow> vulkan_data" where
  "vk_release_image_shm vd vi =
     emit
       ((if staging_buffer vi \<noteq> VK_NULL_HANDLE then [VkDestroy Buffer (staging_buffer vi)]
         else [])
        @ (if staging_memory vi \<noteq> VK_NULL_HANDLE
           then [VkDestroy DeviceMemory (staging_memory vi)] else [])
        @ (if shm_segment vi \<noteq> XCB_NONE then [X (XcbShmDetach (shm_segment vi))] else [])
        @ (if shm_address vi \<noteq> - 1 then [Sys (Shmdt (shm_address vi))] else [])
        @ (if shm_id vi \<noteq> - 1 then [Sys (ShmctlRmid (shm_id vi))] else [])) vd"

text \<open>
  \<^verbatim>\<open>vk_release_image\<close> gives back the backend and, while references remain, the image
  with its count lowered; \<open>None\<close> once the image is freed. Freeing the descriptor set
  gives its place in the pool back.
\<close>

definition vk_release_image ::
  "vulkan_data \<Rightarrow> vulkan_image \<Rightarrow> vulkan_data \<times> vulkan_image option" where
  "vk_release_image vd vi0 =
     (let vi = vi0\<lparr>refcount := refcount vi0 - 1\<rparr> in
      if 0 < sint (refcount vi) then (vd, Some vi)
      else
        let vd1 = emit [VkDeviceWaitIdle (device vd)] vd;
            vd2 = (if descriptor_set vi \<noteq> VK_NULL_HANDLE
                   then (emit [VkDestroy DescriptorSet (descriptor_set vi)] vd1)
                          \<lparr>pool_allocated_sets := pool_allocated_sets vd1 - 1\<rparr>
                   else vd1);
            vd3 = (if image_view vi \<noteq> VK_NULL_HANDLE
                   then emit [VkDestroy ImageView (image_view vi)] vd2 else vd2);
            vd4 = (if bind_pixmap_strategy vd3 = BIND_PIXMAP_STRATEGY_SHM
                   then vk_release_image_shm vd3 vi else vd3);
            vd5 = (if image vi \<noteq> VK_NULL_HANDLE
                   then emit [VkDestroy Image (image vi)] vd4 else vd4);
            vd6 = (if memory vi \<noteq> VK_NULL_HANDLE
                   then emit [VkDestroy DeviceMemory (memory vi)] vd5 else vd5);
            vd7 = (if owned vi \<and> pixmap vi \<noteq> XCB_NONE
                   then emit [X (XcbFreePixmap (pixmap vi))] vd6 else vd6)
        in (vd7, None))"

subsection \<open>\<^verbatim>\<open>vk_bind_pixmap_shm\<close>\<close>

definition vk_bind_pixmap_shm ::
  "bind_driver \<Rightarrow> vulkan_data \<Rightarrow> vulkan_image \<Rightarrow> fault + bool \<times> vulkan_image \<times> vulkan_data" where
  "vk_bind_pixmap_shm e vd vi =
     (let vd1 = emit [X (XcbGetGeometry (pixmap vi))] vd in
      case get_geometry e of
        None \<Rightarrow> Inr (False, vi, vd1)
      | Some (w, h) \<Rightarrow>
     (let vi1 = vi\<lparr>img_width := w, img_height := h\<rparr>;
          vd2 = emit [VkCreateImage w h VK_IMAGE_TILING_OPTIMAL 0] vd1 in
      case create_image e of
        None \<Rightarrow> Inr (False, vi1, vd2)
      | Some img \<Rightarrow>
     (let vi2 = vi1\<lparr>image := img\<rparr> in
      case find_memory_type (mr_memoryTypeBits (image_memory_requirements e))
             VK_MEMORY_PROPERTY_DEVICE_LOCAL_BIT (memory_types e) 0 of
        None \<Rightarrow> Inr (False, vi2, vd2)
      | Some image_memory_type_index \<Rightarrow>
     (let vd3 = emit [VkAllocateMemory (mr_size (image_memory_requirements e))
                        image_memory_type_index] vd2 in
      case allocate_image_memory e of
        None \<Rightarrow> Inr (False, vi2, vd3)
      | Some mem \<Rightarrow>
     (let vi3 = vi2\<lparr>memory := mem\<rparr>;
          vd4 = emit [VkBindImageMemory img mem] vd3 in
      if \<not> bind_image_memory e then Inr (False, vi3, vd4)
      else if min_imported_host_pointer_alignment vd4 = 0 then Inl DivisionByZero
      else
     (let size = shm_size w h (min_imported_host_pointer_alignment vd4);
          vd5 = emit [Sys (Shmget size)] vd4;
          vi4 = vi3\<lparr>shm_id := shmget_result e\<rparr> in
      if shm_id vi4 = - 1 then Inr (False, vi4, vd5)
      else
     (let vd6 = emit [Sys (Shmat (shm_id vi4))] vd5;
          vi5 = vi4\<lparr>shm_address := shmat_result e\<rparr> in
      if shm_address vi5 = - 1 then Inr (False, vi5, vd6)
      else
     (let vi6 = vi5\<lparr>shm_segment := new_xid e\<rparr>;
          vd7 = emit [X (XcbShmAttach (shm_segment vi6) (shm_id vi6))] vd6 in
      if \<not> shm_attach_ok e then Inr (False, vi6\<lparr>shm_segment := XCB_NONE\<rparr>, vd7)
      else
     (let vd8 = emit [VkCreateBuffer size] vd7 in
      case create_buffer e of
        None \<Rightarrow> Inr (False, vi6, vd8)
      | Some buf \<Rightarrow>
     (let vi7 = vi6\<lparr>staging_buffer := buf\<rparr> in
      case memory_host_pointer_properties e of
        None \<Rightarrow> Inr (False, vi7, vd8)
      | Some host_bits \<Rightarrow>
     (case find_memory_type
             (mr_memoryTypeBits (buffer_memory_requirements e) AND host_bits)
             VK_MEMORY_PROPERTY_HOST_VISIBLE_BIT (memory_types e) 0 of
        None \<Rightarrow> Inr (False, vi7, vd8)
      | Some buffer_memory_type_index \<Rightarrow>
     (let vd9 = emit [VkAllocateMemory (mr_size (buffer_memory_requirements e))
                        buffer_memory_type_index] vd8 in
      case allocate_staging_memory e of
        None \<Rightarrow> Inr (False, vi7, vd9)
      | Some smem \<Rightarrow>
          Inr (bind_buffer_memory e, vi7\<lparr>staging_memory := smem\<rparr>,
               emit [VkBindBufferMemory buf smem] vd9)))))))))))))"

subsection \<open>\<^verbatim>\<open>vk_bind_pixmap\<close>\<close>

text \<open>The \<^verbatim>\<open>err\<close> label: release what there is of the image and return no handle.\<close>

definition bind_err :: "vulkan_data \<Rightarrow> vulkan_image \<Rightarrow> fault + vulkan_image option \<times> vulkan_data" where
  "bind_err vd vi = Inr (None, fst (vk_release_image vd vi))"

definition image_view_components :: "vulkan_image \<Rightarrow> VkComponentMapping" where
  "image_view_components vi =
     \<lparr>swz_r = VK_COMPONENT_SWIZZLE_B, swz_g = VK_COMPONENT_SWIZZLE_G,
      swz_b = VK_COMPONENT_SWIZZLE_R,
      swz_a = (if has_alpha vi then VK_COMPONENT_SWIZZLE_A else VK_COMPONENT_SWIZZLE_ONE)\<rparr>"

text \<open>
  The part of \<^verbatim>\<open>vk_bind_pixmap\<close> after the strategy's import: the view, the descriptor
  set, and the one-shot submission that moves the image to the shader-read layout.
\<close>

definition bind_finish ::
  "bind_driver \<Rightarrow> vulkan_data \<Rightarrow> vulkan_image \<Rightarrow> fault + vulkan_image option \<times> vulkan_data" where
  "bind_finish e vd vi =
     (let vd1 = emit [VkCreateImageView (image vi) (image_view_components vi)
                        (create_image_view e)] vd in
      case create_image_view e of
        None \<Rightarrow> bind_err vd1 vi
      | Some view \<Rightarrow>
     (let vi1 = vi\<lparr>image_view := view\<rparr>;
          vd2 = emit [VkAllocateDescriptorSets (descriptor_pool vd1)] vd1 in
      case pool_allocate e vd2 of
        None \<Rightarrow> bind_err vd2 vi1
      | Some dset \<Rightarrow>
     (let vi2 = vi1\<lparr>descriptor_set := dset\<rparr>;
          vd3 = (emit [VkUpdateDescriptorSets dset (sampler vd2) view,
                       VkWaitForFences (queue_submit_fence vd2)] vd2)
                  \<lparr>pool_allocated_sets := pool_allocated_sets vd2 + 1\<rparr> in
      if \<not> wait_for_fences e then bind_err vd3 vi2
      else
     (let vd4 = emit [VkResetFences (queue_submit_fence vd3)] vd3 in
      if \<not> reset_fences e then bind_err vd4 vi2
      else
     (let vd5 = emit [VkResetCommandBuffer (command_buffer vd4)] vd4 in
      if \<not> reset_command_buffer e then bind_err vd5 vi2
      else
     (let vd6 = emit [VkBeginCommandBuffer (command_buffer vd5)] vd5 in
      if \<not> begin_command_buffer e then bind_err vd6 vi2
      else
     (let vd7 = emit [VkCmd (CmdPipelineBarrier (image vi2) VK_IMAGE_LAYOUT_UNDEFINED
                               VK_IMAGE_LAYOUT_SHADER_READ_ONLY_OPTIMAL),
                      VkEndCommandBuffer (command_buffer vd6)] vd6 in
      if \<not> end_command_buffer e then bind_err vd7 vi2
      else
     (let vd8 = emit [VkQueueSubmit (queue vd7) (command_buffer vd7) [] []
                        (queue_submit_fence vd7)] vd7 in
      if \<not> queue_submit e then bind_err vd8 vi2
      else Inr (Some vi2, vd8)))))))))"

text \<open>
  \<^verbatim>\<open>struct xvisual_info\<close> is declared outside this file; the only member used is
  \<^verbatim>\<open>alpha_size\<close>, a number that is compared with 0, of whatever ordered type it is
  declared with. The fields of \<^verbatim>\<open>struct backend_image\<close> that are set here play no part
  and are left out.
\<close>

definition vk_bind_pixmap ::
  "bind_driver \<Rightarrow> vulkan_data \<Rightarrow> uint32 \<Rightarrow> 'a :: {zero, linorder} \<Rightarrow> bool \<Rightarrow>
     fault + vulkan_image option \<times> vulkan_data" where
  "vk_bind_pixmap e vd pm alpha_size own =
     (let vi = vi_zero\<lparr>refcount := 1, has_alpha := 0 < alpha_size, pixmap := pm,
                       owned := own\<rparr> in
      case (case bind_pixmap_strategy vd of
              BIND_PIXMAP_STRATEGY_DRI3 \<Rightarrow> vk_bind_pixmap_dri3 e vd vi
            | BIND_PIXMAP_STRATEGY_SHM \<Rightarrow> vk_bind_pixmap_shm e vd vi) of
        Inl f \<Rightarrow> Inl f
      | Inr (ok, vi1, vd1) \<Rightarrow> if \<not> ok then bind_err vd1 vi1 else bind_finish e vd1 vi1)"

section \<open>Initialisation and teardown\<close>

subsection \<open>What the driver and the X server answer\<close>

text \<open>
  Of \<^verbatim>\<open>session_t\<close> only the two extension flags and the vsync option are read.
\<close>

record session =
  dri3_exists :: bool
  shm_exists :: bool
  vsync :: bool

datatype VkFormat =
    VK_FORMAT_UNDEFINED | VK_FORMAT_R8G8B8A8_UNORM | VK_FORMAT_B8G8R8A8_UNORM
  | VK_FORMAT_OTHER nat

text \<open>
  One enumerated physical device: its handle, \<^verbatim>\<open>apiVersion\<close>, whether the first
  \<^verbatim>\<open>vkEnumerateDeviceExtensionProperties\<close> succeeds, the extension names the second one
  gives (\<open>None\<close> when it fails), and \<^verbatim>\<open>minImportedHostPointerAlignment\<close>.
\<close>

record physical_device_info =
  pd_handle :: handle
  pd_apiVersion :: uint32
  pd_extension_count_ok :: bool
  pd_extensions :: "string list option"
  pd_minImportedHostPointerAlignment :: uint64

text \<open>
  One queue family of the selected device: the graphics bit, XCB presentation support, and
  surface support (\<open>None\<close> when \<^verbatim>\<open>vkGetPhysicalDeviceSurfaceSupportKHR\<close> fails).
\<close>

record queue_family =
  qf_graphics :: bool
  qf_xcb_presentation :: bool
  qf_surface_support :: "bool option"

record init_driver =
  enumerate_instance_extension_count_ok :: bool
  instance_extensions :: "string list option"
  create_instance :: "handle option"
  xcb_connection :: handle
  xcb_connection_has_error :: bool
  create_surface :: "handle option"
  enumerate_physical_device_count_ok :: bool
  physical_devices :: "physical_device_info list option"
  queue_families :: "queue_family list"
  create_device :: "handle option"
  get_memory_fd_properties_proc :: bool
  get_memory_host_pointer_properties_proc :: bool
  device_queue :: handle
  create_acquire_fence :: "handle option"
  create_submit_fence :: "handle option"
  create_semaphore :: "handle option"
  surface_capabilities :: "(uint32 \<times> uint32 \<times> nat) option"
  surface_format_count_ok :: bool
  surface_formats :: "VkFormat list"
  uninitialized_format :: VkFormat
  create_swapchain :: "handle option"
  get_swapchain_images :: "handle list option"
  create_swapchain_image_view :: "nat \<Rightarrow> handle option"
  acquire_next_image :: "nat option"
  wait_acquire_fence :: bool
  reset_acquire_fence :: bool
  create_descriptor_pool :: "handle option"
  create_descriptor_set_layout :: "handle option"
  create_sampler :: "handle option"
  compose_shaders :: bool
  fill_shaders :: bool
  create_compose_pipeline_layout :: "handle option"
  create_compose_pipeline :: "handle option"
  create_fill_pipeline_layout :: "handle option"
  create_fill_pipeline :: "handle option"
  create_command_pool :: "handle option"
  allocate_command_buffer :: "handle option"

subsection \<open>Extensions and the choice of the physical device\<close>

fun vk_has_extension :: "string list \<Rightarrow> string \<Rightarrow> bool" where
  "vk_has_extension [] extension = False"
| "vk_has_extension (p # ps) extension =
     (if p = extension then True else vk_has_extension ps extension)"

text \<open>The loop that sets \<^verbatim>\<open>has_enabled_extensions\<close>.\<close>

fun has_enabled_extensions :: "string list \<Rightarrow> string list \<Rightarrow> bool" where
  "has_enabled_extensions properties [] = True"
| "has_enabled_extensions properties (n # ns) =
     (if \<not> vk_has_extension properties n then False
      else has_enabled_extensions properties ns)"

text \<open>\<^verbatim>\<open>VK_MAKE_API_VERSION(0, 1, 3, 0)\<close>.\<close>

definition VK_API_VERSION_1_3 :: uint32 where
  "VK_API_VERSION_1_3 = 4206592"

fun vk_select_physical_device ::
  "vulkan_data \<Rightarrow> physical_device_info list \<Rightarrow> string list \<Rightarrow> vulkan_data" where
  "vk_select_physical_device vd [] names = vd"
| "vk_select_physical_device vd (d # ds) names =
     (if pd_apiVersion d < VK_API_VERSION_1_3 then vk_select_physical_device vd ds names
      else if \<not> pd_extension_count_ok d then vk_select_physical_device vd ds names
      else
        case pd_extensions d of
          None \<Rightarrow> vk_select_physical_device vd ds names
        | Some properties \<Rightarrow>
            if \<not> has_enabled_extensions properties names
            then vk_select_physical_device vd ds names
            else
              let vd1 = vd\<lparr>physical_device := pd_handle d\<rparr> in
              if bind_pixmap_strategy vd1 = BIND_PIXMAP_STRATEGY_SHM
              then vd1\<lparr>min_imported_host_pointer_alignment :=
                         pd_minImportedHostPointerAlignment d\<rparr>
              else vd1)"

definition common_extension_names :: "string list" where
  "common_extension_names = [''VK_KHR_swapchain'']"

definition dri3_extension_names :: "string list" where
  "dri3_extension_names =
     [''VK_EXT_external_memory_dma_buf'', ''VK_EXT_image_drm_format_modifier'',
      ''VK_KHR_external_memory_fd'']"

definition shm_extension_names :: "string list" where
  "shm_extension_names = [''VK_EXT_external_memory_host'']"

text \<open>
  The two \<^verbatim>\<open>if\<close> blocks of \<^verbatim>\<open>vk_create_device\<close> that set the strategy and look for a
  device; the result carries the extension names to enable.
\<close>

definition choose_strategy ::
  "session \<Rightarrow> physical_device_info list \<Rightarrow> vulkan_data \<Rightarrow> string list \<times> vulkan_data" where
  "choose_strategy s ds vd =
     (let (names1, vd1) =
            (if dri3_exists s
             then (common_extension_names @ dri3_extension_names,
                   vk_select_physical_device
                     (vd\<lparr>bind_pixmap_strategy := BIND_PIXMAP_STRATEGY_DRI3\<rparr>) ds
                     (common_extension_names @ dri3_extension_names))
             else ([], vd))
      in if physical_device vd1 = VK_NULL_HANDLE \<and> shm_exists s
         then (common_extension_names @ shm_extension_names,
               vk_select_physical_device
                 (vd1\<lparr>bind_pixmap_strategy := BIND_PIXMAP_STRATEGY_SHM\<rparr>) ds
                 (common_extension_names @ shm_extension_names))
         else (names1, vd1))"

text \<open>
  The loop over the queue families from index \<open>i\<close> on: \<open>None\<close> when the surface-support
  query fails, else the index found, if any.
\<close>

fun find_queue_family :: "queue_family list \<Rightarrow> nat \<Rightarrow> nat option option" where
  "find_queue_family [] i = Some None"
| "find_queue_family (q # qs) i =
     (case qf_surface_support q of
        None \<Rightarrow> None
      | Some supports_surface \<Rightarrow>
          if qf_graphics q \<and> qf_xcb_presentation q \<and> supports_surface then Some (Some i)
          else find_queue_family qs (Suc i))"

subsection \<open>The steps of \<^verbatim>\<open>vk_init\<close>\<close>

text \<open>Each step gives its returned flag and the backend as it leaves it.\<close>

definition vk_create_instance :: "init_driver \<Rightarrow> vulkan_data \<Rightarrow> bool \<times> vulkan_data" where
  "vk_create_instance e vd =
     (if \<not> enumerate_instance_extension_count_ok e then (False, vd)
      else
        case instance_extensions e of
          None \<Rightarrow> (False, vd)
        | Some properties \<Rightarrow>
            if \<not> has_enabled_extensions properties [''VK_KHR_surface'', ''VK_KHR_xcb_surface'']
            then (False, vd)
            else
              case create_instance e of
                None \<Rightarrow> (False, emit [VkCreate Instance] vd)
              | Some h \<Rightarrow> (True, (emit [VkCreate Instance] vd)\<lparr>vk_instance := h\<rparr>))"

definition vk_create_surface :: "init_driver \<Rightarrow> vulkan_data \<Rightarrow> bool \<times> vulkan_data" where
  "vk_create_surface e vd =
     (let vd1 = (emit [X XcbConnect] vd)\<lparr>surface_connection := xcb_connection e\<rparr> in
      if xcb_connection_has_error e then (False, vd1)
      else
        case create_surface e of
          None \<Rightarrow> (False, emit [VkCreate Surface] vd1)
        | Some h \<Rightarrow> (True, (emit [VkCreate Surface] vd1)\<lparr>surface := h\<rparr>))"

definition vk_create_device ::
  "init_driver \<Rightarrow> session \<Rightarrow> vulkan_data \<Rightarrow> bool \<times> vulkan_data" where
  "vk_create_device e s vd =
     (if \<not> enumerate_physical_device_count_ok e then (False, vd)
      else
        case physical_devices e of
          None \<Rightarrow> (False, vd)
        | Some ds \<Rightarrow>
       (let (names, vd1) = choose_strategy s ds vd in
        if physical_device vd1 = VK_NULL_HANDLE then (False, vd1)
        else
       (let vd2 = vd1\<lparr>queue_family_index := - 1\<rparr> in
        case find_queue_family (queue_families e) 0 of
          None \<Rightarrow> (False, vd2)
        | Some None \<Rightarrow> (False, vd2)
        | Some (Some i) \<Rightarrow>
       (let vd3 = emit [VkCreateDevice (physical_device vd2) names]
                    (vd2\<lparr>queue_family_index := of_nat i\<rparr>) in
        case create_device e of
          None \<Rightarrow> (False, vd3)
        | Some h \<Rightarrow>
       (let vd4 = vd3\<lparr>device := h\<rparr> in
        if bind_pixmap_strategy vd4 = BIND_PIXMAP_STRATEGY_DRI3
           \<and> \<not> get_memory_fd_properties_proc e then (False, vd4)
        else if bind_pixmap_strategy vd4 = BIND_PIXMAP_STRATEGY_SHM
           \<and> \<not> get_memory_host_pointer_properties_proc e then (False, vd4)
        else (True, vd4\<lparr>queue := device_queue e\<rparr>))))))"

definition vk_create_fences_and_semaphore ::
  "init_driver \<Rightarrow> vulkan_data \<Rightarrow> bool \<times> vulkan_data" where
  "vk_create_fences_and_semaphore e vd =
     (let vd1 = emit [VkCreateFence False (create_acquire_fence e)] vd in
      case create_acquire_fence e of
        None \<Rightarrow> (False, vd1)
      | Some fa \<Rightarrow>
     (let vd2 = emit [VkCreateFence True (create_submit_fence e)]
                  (vd1\<lparr>acquire_next_image_fence := fa\<rparr>) in
      case create_submit_fence e of
        None \<Rightarrow> (False, vd2)
      | Some fs \<Rightarrow>
     (let vd3 = emit [VkCreate Semaphore] (vd2\<lparr>queue_submit_fence := fs\<rparr>) in
      case create_semaphore e of
        None \<Rightarrow> (False, vd3)
      | Some sem \<Rightarrow> (True, vd3\<lparr>semaphore := sem\<rparr>))))"

text \<open>
  The search for \<^verbatim>\<open>VK_FORMAT_B8G8R8A8_UNORM\<close>; \<open>u\<close> is the value of the variable
  \<^verbatim>\<open>surface_format\<close> when the loop assigns nothing to it.
\<close>

fun find_surface_format :: "VkFormat \<Rightarrow> VkFormat list \<Rightarrow> VkFormat" where
  "find_surface_format u [] = u"
| "find_surface_format u (f # fs) =
     (if f = VK_FORMAT_B8G8R8A8_UNORM then f else find_surface_format u fs)"

definition identity_components :: VkComponentMapping where
  "identity_components =
     \<lparr>swz_r = VK_COMPONENT_SWIZZLE_R, swz_g = VK_COMPONENT_SWIZZLE_G,
      swz_b = VK_COMPONENT_SWIZZLE_B, swz_a = VK_COMPONENT_SWIZZLE_A\<rparr>"

text \<open>
  The loop of \<^verbatim>\<open>vk_create_swapchain\<close> over the images, given the indices still to visit,
  all inside the four arrays just allocated: layout, view, then the buffer age -1.
\<close>

fun swapchain_views :: "init_driver \<Rightarrow> nat list \<Rightarrow> vulkan_data \<Rightarrow> bool \<times> vulkan_data" where
  "swapchain_views e [] vd = (True, vd)"
| "swapchain_views e (i # is) vd =
     (let vd1 = emit [VkCreateImageView (the (swapchain_images vd) ! i) identity_components
                        (create_swapchain_image_view e i)]
                  (vd\<lparr>swapchain_image_layouts :=
                        map_option (\<lambda>ls. ls[i := VK_IMAGE_LAYOUT_UNDEFINED])
                          (swapchain_image_layouts vd)\<rparr>) in
      case create_swapchain_image_view e i of
        None \<Rightarrow> (False, vd1)
      | Some v \<Rightarrow>
          swapchain_views e is
            (vd1\<lparr>swapchain_image_views :=
                    map_option (\<lambda>vs. vs[i := v]) (swapchain_image_views vd1),
                  buffer_ages := map_option (\<lambda>as. as[i := - 1]) (buffer_ages vd1)\<rparr>))"

definition vk_create_swapchain ::
  "init_driver \<Rightarrow> bool \<Rightarrow> vulkan_data \<Rightarrow> bool \<times> vulkan_data" where
  "vk_create_swapchain e is_vsync_enabled vd =
     (case surface_capabilities e of
        None \<Rightarrow> (False, vd)
      | Some (w, h, min_image_count) \<Rightarrow>
     (let vd1 = vd\<lparr>width := w, height := h\<rparr> in
      if \<not> surface_format_count_ok e then (False, vd1)
      else if find_surface_format (uninitialized_format e) (surface_formats e)
                = VK_FORMAT_UNDEFINED then (False, vd1)
      else
     (let vd2 = emit [VkCreateSwapchainKHR min_image_count is_vsync_enabled] vd1 in
      case create_swapchain e of
        None \<Rightarrow> (False, vd2)
      | Some sc \<Rightarrow>
     (let vd3 = vd2\<lparr>swapchain := sc\<rparr> in
      case get_swapchain_images e of
        None \<Rightarrow> (False, vd3)
      | Some imgs \<Rightarrow>
     (let n = length imgs;
          vd4 = vd3\<lparr>swapchain_image_count := n,
                     swapchain_images := Some imgs,
                     swapchain_image_layouts := Some (replicate n VK_IMAGE_LAYOUT_UNDEFINED),
                     swapchain_image_views := Some (replicate n VK_NULL_HANDLE),
                     buffer_ages := Some (replicate n 0)\<rparr> in
      case swapchain_views e [0..<n] vd4 of
        (False, vd5) \<Rightarrow> (False, vd5)
      | (True, vd5) \<Rightarrow>
     (let vd6 = emit [VkAcquireNextImageKHR (swapchain vd5) (semaphore vd5)
                        (acquire_next_image_fence vd5)] vd5 in
      case acquire_next_image e of
        None \<Rightarrow> (False, vd6)
      | Some idx \<Rightarrow>
     (let vd7 = emit [VkWaitForFences (acquire_next_image_fence vd6)]
                  (vd6\<lparr>swapchain_image_index := idx\<rparr>) in
      if \<not> wait_acquire_fence e then (False, vd7)
      else
     (let vd8 = emit [VkResetFences (acquire_next_image_fence vd7)] vd7 in
      (reset_acquire_fence e, vd8)))))))))"

text \<open>
  The pool is created with \<^verbatim>\<open>maxSets = 32\<close> and 32 combined image samplers; the driver
  starts its bookkeeping of the pool there.
\<close>

definition vk_create_descriptor_pool :: "init_driver \<Rightarrow> vulkan_data \<Rightarrow> bool \<times> vulkan_data" where
  "vk_create_descriptor_pool e vd =
     (let vd1 = emit [VkCreateDescriptorPool 32 32] vd in
      case create_descriptor_pool e of
        None \<Rightarrow> (False, vd1)
      | Some pool \<Rightarrow>
     (let vd2 = emit [VkCreate DescriptorSetLayout]
                  (vd1\<lparr>descriptor_pool := pool, pool_max_sets := 32,
                        pool_allocated_sets := 0\<rparr>) in
      case create_descriptor_set_layout e of
        None \<Rightarrow> (False, vd2)
      | Some l \<Rightarrow>
     (let vd3 = emit [VkCreate Sampler] (vd2\<lparr>descriptor_set_layout := l\<rparr>) in
      case create_sampler e of
        None \<Rightarrow> (False, vd3)
      | Some sm \<Rightarrow> (True, vd3\<lparr>sampler := sm\<rparr>))))"

text \<open>
  \<^verbatim>\<open>vk_create_pipelines\<close>, as far as the backend structure goes: the compilation of the
  two pairs of shaders is one answer each, and the shader modules are left out.
\<close>

definition vk_create_pipelines :: "init_driver \<Rightarrow> vulkan_data \<Rightarrow> bool \<times> vulkan_data" where
  "vk_create_pipelines e vd =
     (if \<not> compose_shaders e then (False, vd)
      else if \<not> fill_shaders e then (False, vd)
      else
     (let vd1 = emit [VkCreate PipelineLayout] vd in
      case create_compose_pipeline_layout e of
        None \<Rightarrow> (False, vd1)
      | Some cl \<Rightarrow>
     (let vd2 = emit [VkCreate Pipeline] (vd1\<lparr>compose_pipeline_layout := cl\<rparr>) in
      case create_compose_pipeline e of
        None \<Rightarrow> (False, vd2)
      | Some cp \<Rightarrow>
     (let vd3 = emit [VkCreate PipelineLayout] (vd2\<lparr>compose_pipeline := cp\<rparr>) in
      case create_fill_pipeline_layout e of
        None \<Rightarrow> (False, vd3)
      | Some fl \<Rightarrow>
     (let vd4 = emit [VkCreate Pipeline] (vd3\<lparr>fill_pipeline_layout := fl\<rparr>) in
      case create_fill_pipeline e of
        None \<Rightarrow> (False, vd4)
      | Some fp \<Rightarrow> (True, vd4\<lparr>fill_pipeline := fp\<rparr>))))))"

definition vk_create_command_pool :: "init_driver \<Rightarrow> vulkan_data \<Rightarrow> bool \<times> vulkan_data" where
  "vk_create_command_pool e vd =
     (let vd1 = emit [VkCreate CommandPool] vd in
      case create_command_pool e of
        None \<Rightarrow> (False, vd1)
      | Some cp \<Rightarrow>
     (let vd2 = emit [VkCreate CommandBuffer] (vd1\<lparr>command_pool := cp\<rparr>) in
      case allocate_command_buffer e of
        None \<Rightarrow> (False, vd2)
      | Some cb \<Rightarrow> (True, vd2\<lparr>command_buffer := cb\<rparr>)))"

subsection \<open>\<^verbatim>\<open>vk_destroy_swapchain\<close>, \<^verbatim>\<open>vk_deinit\<close> and \<^verbatim>\<open>vk_init\<close>\<close>

text \<open>
  Freeing the four arrays makes no external call; the views that are not null are
  destroyed, then the chain.
\<close>

definition vk_destroy_swapchain :: "vulkan_data \<Rightarrow> vulkan_data" where
  "vk_destroy_swapchain vd =
     emit
       ((case swapchain_image_views vd of
           None \<Rightarrow> []
         | Some vs \<Rightarrow>
             map (VkDestroy SwapchainImageView)
               (filter (\<lambda>v. v \<noteq> VK_NULL_HANDLE) (take (swapchain_image_count vd) vs)))
        @ (if swapchain vd \<noteq> VK_NULL_HANDLE then [VkDestroy Swapchain (swapchain vd)]
           else [])) vd"

definition destroy_if :: "object_kind \<Rightarrow> handle \<Rightarrow> api_call list" where
  "destroy_if k h = (if h \<noteq> VK_NULL_HANDLE then [VkDestroy k h] else [])"

text \<open>\<^verbatim>\<open>vk_deinit\<close> ends with freeing the structure; what remains is the trace.\<close>

definition vk_deinit :: "vulkan_data \<Rightarrow> api_call list" where
  "vk_deinit vd =
     calls
       (emit
          (destroy_if Semaphore (semaphore vd)
           @ destroy_if Fence (queue_submit_fence vd)
           @ destroy_if Fence (acquire_next_image_fence vd)
           @ destroy_if Device (device vd)
           @ destroy_if Surface (surface vd)
           @ [X (XcbDisconnect (surface_connection vd))]
           @ destroy_if Instance (vk_instance vd))
          (vk_destroy_swapchain
             (emit
                ((if device vd \<noteq> VK_NULL_HANDLE then [VkDeviceWaitIdle (device vd)] else [])
                 @ destroy_if CommandBuffer (command_buffer vd)
                 @ destroy_if CommandPool (command_pool vd)
                 @ destroy_if Pipeline (fill_pipeline vd)
                 @ destroy_if PipelineLayout (fill_pipeline_layout vd)
                 @ destroy_if Pipeline (compose_pipeline vd)
                 @ destroy_if PipelineLayout (compose_pipeline_layout vd)
                 @ destroy_if Sampler (sampler vd)
                 @ destroy_if DescriptorSetLayout (descriptor_set_layout vd)
                 @ destroy_if DescriptorPool (descriptor_pool vd)) vd)))"

text \<open>One step of \<^verbatim>\<open>vk_init\<close>: on failure, \<^verbatim>\<open>goto err\<close>.\<close>

definition and_then ::
  "api_call list + vulkan_data \<Rightarrow> (vulkan_data \<Rightarrow> bool \<times> vulkan_data) \<Rightarrow>
     api_call list + vulkan_data" where
  "and_then r step =
     (case r of
        Inl t \<Rightarrow> Inl t
      | Inr vd \<Rightarrow> (case step vd of (True, vd') \<Rightarrow> Inr vd' | (False, vd') \<Rightarrow> Inl (vk_deinit vd')))"

text \<open>
  \<^verbatim>\<open>vk_init\<close> gives the backend, or \<open>Inl\<close> for the \<^verbatim>\<open>NULL\<close> it returns after \<^verbatim>\<open>vk_deinit\<close>,
  with the calls made until then.
\<close>

definition vk_init :: "init_driver \<Rightarrow> session \<Rightarrow> api_call list + vulkan_data" where
  "vk_init e s =
     and_then (and_then (and_then (and_then (and_then (and_then (and_then (and_then
       (Inr vd_zero)
       (vk_create_instance e))
       (vk_create_surface e))
       (vk_create_device e s))
       (vk_create_fences_and_semaphore e))
       (vk_create_swapchain e (vsync s)))
       (vk_create_descriptor_pool e))
       (vk_create_pipelines e))
       (vk_create_command_pool e)"

section \<open>Observations on a call trace\<close>

text \<open>
  What a call added to the trace: \<open>new_calls vd r\<close> for the result \<open>r\<close> of a call made
  in the state \<open>vd\<close>; the number of draw calls in a trace; the scissor rectangles it sets,
  in order; and, for each draw call in order, the call just before it.
\<close>

definition new_calls :: "vulkan_data \<Rightarrow> fault + vulkan_data \<Rightarrow> api_call list" where
  "new_calls vd r = (case r of Inl f \<Rightarrow> [] | Inr vd' \<Rightarrow> drop (length (calls vd)) (calls vd'))"

fun is_draw :: "api_call \<Rightarrow> bool" where
  "is_draw (VkCmd (CmdDraw a b c d)) = True"
| "is_draw _ = False"

fun scissor_of :: "api_call \<Rightarrow> VkRect2D option" where
  "scissor_of (VkCmd (CmdSetScissor r)) = Some r"
| "scissor_of _ = None"

fun draws :: "api_call list \<Rightarrow> nat" where
  "draws [] = 0"
| "draws (c # cs) = (if is_draw c then 1 else 0) + draws cs"

fun scissors :: "api_call list \<Rightarrow> VkRect2D list" where
  "scissors [] = []"
| "scissors (c # cs) =
     (case scissor_of c of None \<Rightarrow> scissors cs | Some r \<Rightarrow> r # scissors cs)"

fun before_draws :: "api_call option \<Rightarrow> api_call list \<Rightarrow> api_call option list" where
  "before_draws prev [] = []"
| "before_draws prev (c # cs) = (if is_draw c then [prev] else []) @ before_draws (Some c) cs"

text \<open>
  The four swap-chain arrays are allocated with \<^verbatim>\<open>swapchain_image_count\<close> entries each and
  the current image index lies inside them, as \<^verbatim>\<open>vk_create_swapchain\<close> leaves them when
  the driver answers with an index of the chain.
\<close>

definition swapchain_consistent :: "vulkan_data \<Rightarrow> bool" where
  "swapchain_consistent vd =
     (case (swapchain_images vd, swapchain_image_layouts vd, swapchain_image_views vd,
            buffer_ages vd) of
        (Some imgs, Some ls, Some vs, Some ages) \<Rightarrow>
          length imgs = swapchain_image_count vd \<and> length ls = swapchain_image_count vd \<and>
          length vs = swapchain_image_count vd \<and> length ages = swapchain_image_count vd \<and>
          swapchain_image_index vd < swapchain_image_count vd
      | _ \<Rightarrow> False)"

definition age_of :: "vulkan_data \<Rightarrow> nat \<Rightarrow> int32" where
  "age_of vd i = (case buffer_ages vd of Some ages \<Rightarrow> ages ! i | None \<Rightarrow> 0)"

text \<open>
  For a call of \<^verbatim>\<open>vk_bind_pixmap\<close> made in the state \<open>vd\<close>: the calls it added, whether
  it returned an image handle, and whether it returned \<^verbatim>\<open>NULL\<close>. \<open>created_views\<close> lists
  the image, the component mapping and the resulting view of every view creation in a
  trace.
\<close>

definition bind_calls :: "vulkan_data \<Rightarrow> fault + vulkan_image option \<times> vulkan_data \<Rightarrow> api_call list" where
  "bind_calls vd r = (case r of Inl f \<Rightarrow> [] | Inr (h, vd') \<Rightarrow> drop (length (calls vd)) (calls vd'))"



fun created_views ::
  "api_call list \<Rightarrow> (handle \<times> VkComponentMapping \<times> handle option) list" where
  "created_views [] = []"
| "created_views (VkCreateImageView i c r # cs) = (i, c, r) # created_views cs"
| "created_views (x # cs) = created_views cs"


text \<open>
  A device supports a set of extension names when its enumerated extensions contain them
  all; \<^verbatim>\<open>vk_select_physical_device\<close> takes the first device that, besides, has API version
  1.3 or later and answers both enumeration calls.
\<close>

definition supports :: "string list \<Rightarrow> physical_device_info \<Rightarrow> bool" where
  "supports names d =
     (case pd_extensions d of None \<Rightarrow> False
      | Some properties \<Rightarrow> has_enabled_extensions properties names)"

definition suitable :: "string list \<Rightarrow> physical_device_info \<Rightarrow> bool" where
  "suitable names d =
     (VK_API_VERSION_1_3 \<le> pd_apiVersion d \<and> pd_extension_count_ok d \<and> supports names d)"

definition zero_copy_names :: "string list" where
  "zero_copy_names = common_extension_names @ dri3_extension_names"

definition shared_memory_names :: "string list" where
  "shared_memory_names = common_extension_names @ shm_extension_names"

section \<open>Example inputs\<close>

text \<open>A backend with a chain of three images, the first one current.\<close>

definition vd_three :: vulkan_data where
  "vd_three =
     vd_zero\<lparr>device := 1, queue := 2, acquire_next_image_fence := 3,
       queue_submit_fence := 4, semaphore := 5, width := 1920, height := 1080,
       swapchain := 6, swapchain_image_count := 3,
       swapchain_images := Some [10, 11, 12],
       swapchain_image_layouts := Some [VK_IMAGE_LAYOUT_COLOR_ATTACHMENT_OPTIMAL,
         VK_IMAGE_LAYOUT_PRESENT_SRC_KHR, VK_IMAGE_LAYOUT_UNDEFINED],
       swapchain_image_views := Some [20, 21, 22],
       buffer_ages := Some [2, 1, - 1], swapchain_image_index := 0,
       descriptor_pool := 30, descriptor_set_layout := 31, sampler := 32,
       compose_pipeline_layout := 33, compose_pipeline := 34, fill_pipeline_layout := 35,
       fill_pipeline := 36, command_pool := 37, command_buffer := 38,
       pool_max_sets := 32\<rparr>"

definition vi_bound :: vulkan_image where
  "vi_bound =
     vi_zero\<lparr>refcount := 1, pixmap := 77, img_width := 64, img_height := 64, image := 40,
       memory := 41, image_view := 42, descriptor_set := 43\<rparr>"

definition origin :: coord_t where
  "origin = \<lparr>coord_x = 0, coord_y = 0\<rparr>"

definition white :: color where
  "white = \<lparr>red = 1, green = 1, blue = 1, alpha = 1\<rparr>"

definition box :: "int32 \<Rightarrow> int32 \<Rightarrow> int32 \<Rightarrow> int32 \<Rightarrow> pixman_box32" where
  "box a b c d = \<lparr>box_x1 = a, box_y1 = b, box_x2 = c, box_y2 = d\<rparr>"

text \<open>Two disjoint unit squares and their bounding box; one 64 by 64 square; nothing.\<close>

definition region_two :: region_t where
  "region_two = \<lparr>extents = box 0 0 3 3, rects = [box 0 0 1 1, box 2 2 3 3]\<rparr>"

definition region_one :: region_t where
  "region_one = \<lparr>extents = box 0 0 64 64, rects = [box 0 0 64 64]\<rparr>"

definition region_empty :: region_t where
  "region_empty = \<lparr>extents = box 0 0 0 0, rects = []\<rparr>"

text \<open>
  Replies with one and with two planes; a driver, server and kernel that answer every call
  of a bind with success; a backend with the shared-memory strategy, and one whose
  descriptor pool is full.
\<close>

definition one_plane :: dri3_reply where
  "one_plane =
     \<lparr>r_width = 64, r_height = 64, r_nfd = 1, r_modifier = 0, r_offsets = [0],
      r_strides = [256], r_buffers = [9]\<rparr>"


definition bind_ok :: bind_driver where
  "bind_ok =
     \<lparr>assertions_enabled = True, dri3_buffers_from_pixmap = Some one_plane,
      get_geometry = Some (64, 64), create_image = Some 50,
      image_memory_requirements = \<lparr>mr_size = 16384, mr_memoryTypeBits = 3\<rparr>,
      memory_types = [1, 2], memory_fd_properties = Some 3,
      allocate_image_memory = Some 51, bind_image_memory = True, shmget_result = 5,
      shmat_result = 1048576, new_xid = 99, shm_attach_ok = True, create_buffer = Some 52,
      buffer_memory_requirements = \<lparr>mr_size = 16384, mr_memoryTypeBits = 3\<rparr>,
      memory_host_pointer_properties = Some 2, allocate_staging_memory = Some 53,
      bind_buffer_memory = True, create_image_view = Some 54,
      allocate_descriptor_set = Some 55, wait_for_fences = True, reset_fences = True,
      reset_command_buffer = True, begin_command_buffer = True,
      end_command_buffer = True, queue_submit = True\<rparr>"

definition vd_shm :: vulkan_data where
  "vd_shm = vd_three\<lparr>bind_pixmap_strategy := BIND_PIXMAP_STRATEGY_SHM,
                      min_imported_host_pointer_alignment := 4096\<rparr>"


text \<open>
  Devices: one of API version 1.3 with every extension; the same with API version 1.2; one
  of version 1.3 without the zero-copy extensions. A driver that answers every call of
  \<^verbatim>\<open>vk_init\<close> with success, and a session whose X server has both extensions.
\<close>

definition gpu_new :: physical_device_info where
  "gpu_new =
     \<lparr>pd_handle = 7, pd_apiVersion = 4206592, pd_extension_count_ok = True,
      pd_extensions = Some [''VK_KHR_swapchain'', ''VK_EXT_external_memory_dma_buf'',
        ''VK_EXT_image_drm_format_modifier'', ''VK_KHR_external_memory_fd'',
        ''VK_EXT_external_memory_host''],
      pd_minImportedHostPointerAlignment = 4096\<rparr>"

definition gpu_old :: physical_device_info where
  "gpu_old = gpu_new\<lparr>pd_handle := 8, pd_apiVersion := 4202496\<rparr>"

definition gpu_host_only :: physical_device_info where
  "gpu_host_only =
     gpu_new\<lparr>pd_handle := 9,
       pd_extensions := Some [''VK_KHR_swapchain'', ''VK_EXT_external_memory_host'']\<rparr>"

definition init_ok :: init_driver where
  "init_ok =
     \<lparr>enumerate_instance_extension_count_ok = True,
      instance_extensions = Some [''VK_KHR_surface'', ''VK_KHR_xcb_surface''],
      create_instance = Some 100, xcb_connection = 101, xcb_connection_has_error = False,
      create_surface = Some 102, enumerate_physical_device_count_ok = True,
      physical_devices = Some [gpu_new],
      queue_families = [\<lparr>qf_graphics = True, qf_xcb_presentation = True,
                          qf_surface_support = Some True\<rparr>],
      create_device = Some 103, get_memory_fd_properties_proc = True,
      get_memory_host_pointer_properties_proc = True, device_queue = 104,
      create_acquire_fence = Some 105, create_submit_fence = Some 106,
      create_semaphore = Some 107, surface_capabilities = Some (1920, 1080, 2),
      surface_format_count_ok = True, surface_formats = [VK_FORMAT_B8G8R8A8_UNORM],
      uninitialized_format = VK_FORMAT_UNDEFINED, create_swapchain = Some 108,
      get_swapchain_images = Some [10, 11],
      create_swapchain_image_view = (\<lambda>i. Some (20 + i)), acquire_next_image = Some 0,
      wait_acquire_fence = True, reset_acquire_fence = True,
      create_descriptor_pool = Some 30, create_descriptor_set_layout = Some 31,
      create_sampler = Some 32, compose_shaders = True, fill_shaders = True,
      create_compose_pipeline_layout = Some 33, create_compose_pipeline = Some 34,
      create_fill_pipeline_layout = Some 35, create_fill_pipeline = Some 36,
      create_command_pool = Some 37, allocate_command_buffer = Some 38\<rparr>"

definition session_both :: session where
  "session_both = \<lparr>dri3_exists = True, shm_exists = True, vsync = True\<rparr>"

section \<open>Buffer ages\<close>
lemma bump_ages_spec:
  "distinct is \<Longrightarrow> \<forall>i\<in>set is. i < length ages \<Longrightarrow>
   \<exists>ages'. bump_ages idx is ages = Inr ages' \<and> length ages' = length ages \<and>
     (\<forall>j < length ages. ages' ! j =
        (if j \<in> set is \<and> j \<noteq> idx \<and> ages ! j \<noteq> - 1 then ages ! j + 1 else ages ! j))"
proof (induction "is" arbitrary: ages)
  case Nil
  then show ?case by simp
next
  case (Cons i "is")
  show ?case
  proof (cases "i = idx")
    case True
    with Cons.IH [of ages] Cons.prems show ?thesis by auto
  next
    case False
    define ages1 where "ages1 = (if ages ! i \<noteq> - 1 then ages[i := ages ! i + 1] else ages)"
    have len: "length ages1 = length ages" by (simp add: ages1_def)
    have il: "i < length ages" using Cons.prems by simp
    have notin: "i \<notin> set is" and dist: "distinct is" using Cons.prems by simp_all
    have bnd: "\<forall>k\<in>set is. k < length ages1" using Cons.prems len by simp
    from Cons.IH [OF dist bnd] obtain ages' where
      r: "bump_ages idx is ages1 = Inr ages'" and l: "length ages' = length ages1" and
      v: "\<forall>j < length ages1. ages' ! j =
        (if j \<in> set is \<and> j \<noteq> idx \<and> ages1 ! j \<noteq> - 1 then ages1 ! j + 1 else ages1 ! j)"
      by blast
    have step: "bump_ages idx (i # is) ages = bump_ages idx is ages1"
      using False il by (simp add: ages1_def)
    have "\<forall>j < length ages. ages' ! j =
        (if j \<in> set (i # is) \<and> j \<noteq> idx \<and> ages ! j \<noteq> - 1 then ages ! j + 1 else ages ! j)"
    proof (intro allI impI)
      fix j assume j: "j < length ages"
      show "ages' ! j =
        (if j \<in> set (i # is) \<and> j \<noteq> idx \<and> ages ! j \<noteq> - 1 then ages ! j + 1 else ages ! j)"
      proof (cases "j = i")
        case True
        then have "ages' ! j = ages1 ! i" using v j len notin by simp
        then show ?thesis using True False il by (simp add: ages1_def)
      next
        case ne: False
        then have "ages1 ! j = ages ! j" by (simp add: ages1_def)
        then show ?thesis using v j len ne by simp
      qed
    qed
    then show ?thesis using step r l len by simp
  qed
qed


text \<open>
  Consistency of the swap-chain arrays is what \<^verbatim>\<open>vk_create_swapchain\<close> establishes when the
  driver answers the acquire with an index of the chain (all ages are then -1), and what
  \<^verbatim>\<open>vk_prepare\<close> and \<^verbatim>\<open>vk_present\<close> keep.
\<close>

lemma swapchain_views_arrays:
  assumes "swapchain_images vd = Some imgs" "swapchain_image_layouts vd = Some ls"
    "swapchain_image_views vd = Some vs" "buffer_ages vd = Some ages"
    "length ls = n" "length vs = n" "length ages = n" "\<forall>i\<in>set is. i < n"
    "swapchain_views e is vd = (True, vd')"
  shows "\<exists>ls' vs' ages'. swapchain_images vd' = Some imgs \<and> swapchain_image_layouts vd' = Some ls' \<and>
           swapchain_image_views vd' = Some vs' \<and> buffer_ages vd' = Some ages' \<and>
           length ls' = n \<and> length vs' = n \<and> length ages' = n \<and>
           swapchain_image_count vd' = swapchain_image_count vd \<and>
           (\<forall>i < n. ages' ! i = (if i \<in> set is then - 1 else ages ! i))"
  using assms
proof (induction "is" arbitrary: vd ls vs ages)
  case Nil
  then show ?case by simp
next
  case (Cons i "is")
  from Cons.prems(9) obtain v where v: "create_swapchain_image_view e i = Some v"
    by (auto simp: Let_def split: option.splits)
  define vd1 where "vd1 = (emit [VkCreateImageView (the (swapchain_images vd) ! i) identity_components
                        (create_swapchain_image_view e i)]
                  (vd\<lparr>swapchain_image_layouts :=
                        map_option (\<lambda>ls. ls[i := VK_IMAGE_LAYOUT_UNDEFINED])
                          (swapchain_image_layouts vd)\<rparr>))
          \<lparr>swapchain_image_views :=
                    map_option (\<lambda>vs. vs[i := v]) (swapchain_image_views vd),
                  buffer_ages := map_option (\<lambda>as. as[i := - 1]) (buffer_ages vd)\<rparr>"
  have step: "swapchain_views e is vd1 = (True, vd')"
    using Cons.prems(9) v by (simp add: vd1_def Let_def emit_def)
  have f: "swapchain_images vd1 = Some imgs"
    "swapchain_image_layouts vd1 = Some (ls[i := VK_IMAGE_LAYOUT_UNDEFINED])"
    "swapchain_image_views vd1 = Some (vs[i := v])" "buffer_ages vd1 = Some (ages[i := - 1])"
    "swapchain_image_count vd1 = swapchain_image_count vd"
    using Cons.prems(1-4) by (simp_all add: vd1_def emit_def)
  have b: "\<forall>k\<in>set is. k < n" "i < n" using Cons.prems(8) by simp_all
  from Cons.IH [OF f(1-4) _ _ _ b(1) step] Cons.prems(5-7)
  obtain ls' vs' ages' where
    r: "swapchain_images vd' = Some imgs" "swapchain_image_layouts vd' = Some ls'"
      "swapchain_image_views vd' = Some vs'" "buffer_ages vd' = Some ages'"
      "length ls' = n" "length vs' = n" "length ages' = n"
      "swapchain_image_count vd' = swapchain_image_count vd1"
      "\<forall>k < n. ages' ! k = (if k \<in> set is then - 1 else (ages[i := - 1]) ! k)"
    by auto
  have "\<forall>k < n. ages' ! k = (if k \<in> set (i # is) then - 1 else ages ! k)"
    using r(9) Cons.prems(7) b(2) by (auto simp: nth_list_update)
  then show ?case using r f(5) by simp
qed

lemma create_swapchain_consistent:
  assumes c: "vk_create_swapchain e v vd = (True, vd')"
    and a: "acquire_next_image e = Some idx" and i: "idx < swapchain_image_count vd'"
  shows "swapchain_consistent vd' \<and> (\<forall>i < swapchain_image_count vd'. age_of vd' i = - 1)"
proof -
  from c obtain w h m where cap: "surface_capabilities e = Some (w, h, m)"
    by (auto simp: vk_create_swapchain_def split: option.splits)
  from c cap obtain sc where sc: "create_swapchain e = Some sc"
    by (auto simp: vk_create_swapchain_def Let_def split: option.splits if_splits)
  from c cap sc obtain imgs where im: "get_swapchain_images e = Some imgs"
    by (auto simp: vk_create_swapchain_def Let_def split: option.splits if_splits)
  define vd4 where "vd4 = (emit [VkCreateSwapchainKHR m v] (vd\<lparr>width := w, height := h\<rparr>))
     \<lparr>swapchain := sc\<rparr>
     \<lparr>swapchain_image_count := length imgs,
                     swapchain_images := Some imgs,
                     swapchain_image_layouts := Some (replicate (length imgs) VK_IMAGE_LAYOUT_UNDEFINED),
                     swapchain_image_views := Some (replicate (length imgs) VK_NULL_HANDLE),
                     buffer_ages := Some (replicate (length imgs) 0)\<rparr>"
  have v4: "swapchain_images vd4 = Some imgs"
      "swapchain_image_layouts vd4 = Some (replicate (length imgs) VK_IMAGE_LAYOUT_UNDEFINED)"
      "swapchain_image_views vd4 = Some (replicate (length imgs) VK_NULL_HANDLE)"
      "buffer_ages vd4 = Some (replicate (length imgs) 0)"
      "swapchain_image_count vd4 = length imgs"
    by (simp_all add: vd4_def emit_def)
  obtain ok5 vd5 where l0: "swapchain_views e [0..<length imgs] vd4 = (ok5, vd5)"
    by (cases "swapchain_views e [0..<length imgs] vd4") auto
  have c': "vk_create_swapchain e v vd =
     (case swapchain_views e [0..<length imgs] vd4 of
        (False, vd5) \<Rightarrow> (False, vd5)
      | (True, vd5) \<Rightarrow>
     (let vd6 = emit [VkAcquireNextImageKHR (swapchain vd5) (semaphore vd5)
                        (acquire_next_image_fence vd5)] vd5 in
      case acquire_next_image e of
        None \<Rightarrow> (False, vd6)
      | Some idx \<Rightarrow>
     (let vd7 = emit [VkWaitForFences (acquire_next_image_fence vd6)]
                  (vd6\<lparr>swapchain_image_index := idx\<rparr>) in
      if \<not> wait_acquire_fence e then (False, vd7)
      else
     (let vd8 = emit [VkResetFences (acquire_next_image_fence vd7)] vd7 in
      (reset_acquire_fence e, vd8)))))"
    using c cap sc im
    by (simp add: vk_create_swapchain_def Let_def vd4_def split: if_splits)
  have l: "swapchain_views e [0..<length imgs] vd4 = (True, vd5)"
    and e: "swapchain_images vd' = swapchain_images vd5"
      "swapchain_image_layouts vd' = swapchain_image_layouts vd5"
      "swapchain_image_views vd' = swapchain_image_views vd5"
      "buffer_ages vd' = buffer_ages vd5"
      "swapchain_image_count vd' = swapchain_image_count vd5"
      "swapchain_image_index vd' = idx"
    using c c' l0 a
    by (auto simp: Let_def emit_def split: if_splits bool.splits)
  have b: "\<forall>k\<in>set [0..<length imgs]. k < length imgs" by simp
  from swapchain_views_arrays [OF v4(1-4) _ _ _ b l]
  obtain ls' vs' ages' where
    r: "swapchain_images vd5 = Some imgs" "swapchain_image_layouts vd5 = Some ls'"
      "swapchain_image_views vd5 = Some vs'" "buffer_ages vd5 = Some ages'"
      "length ls' = length imgs" "length vs' = length imgs" "length ages' = length imgs"
      "swapchain_image_count vd5 = swapchain_image_count vd4"
      "\<forall>k < length imgs. ages' ! k = - 1"
    by auto
  show ?thesis using r i e v4(5)
    by (simp add: swapchain_consistent_def age_of_def)
qed

lemma present_consistent:
  assumes "swapchain_consistent vd" and "vk_present acquire vd = Inr vd'"
    and "\<forall>n. acquire = Some n \<longrightarrow> n < swapchain_image_count vd"
  shows "swapchain_consistent vd'"
proof -
  from assms(1) obtain imgs ls vs ages where
    f: "swapchain_images vd = Some imgs" "swapchain_image_layouts vd = Some ls"
       "swapchain_image_views vd = Some vs" "buffer_ages vd = Some ages" and
    n: "length imgs = swapchain_image_count vd" "length ls = swapchain_image_count vd"
       "length vs = swapchain_image_count vd"
       "length ages = swapchain_image_count vd"
       "swapchain_image_index vd < swapchain_image_count vd"
    by (auto simp: swapchain_consistent_def split: option.splits)
  have d: "distinct [0..<swapchain_image_count vd]" by simp
  have b: "\<forall>i\<in>set [0..<swapchain_image_count vd].
             i < length (ages[swapchain_image_index vd := 1])"
    using n by simp
  from bump_ages_spec [OF d b, of "swapchain_image_index vd"] obtain ages' where
    r: "bump_ages (swapchain_image_index vd) [0..<swapchain_image_count vd]
       (ages[swapchain_image_index vd := 1]) = Inr ages'" and l: "length ages' = length ages"
    by auto
  show ?thesis
    using assms(2,3) f n r l
    by (auto simp: vk_present_def update_buffer_ages_def array_get_def array_set_def Let_def
          emit_def swapchain_consistent_def split: option.splits)
qed

lemma prepare_consistent:
  assumes "swapchain_consistent vd" and "vk_prepare vd = Inr vd'"
  shows "swapchain_consistent vd'"
  using assms
  by (auto simp: vk_prepare_def array_get_def array_set_def Let_def
          emit_def swapchain_consistent_def split: option.splits if_splits)

text \<open>
  C1. In a backend whose swap-chain arrays are consistent, \<^verbatim>\<open>vk_present\<close> returns, and
  afterwards the age of the image that was presented is 1, the age of every other image
  whose age was not -1 is its old age plus one (as 32-bit values, and as signed numbers
  below the largest one), and every other image whose age was -1 keeps -1.
\<close>

theorem present_buffer_ages:
  assumes ok: "swapchain_consistent vd"
  shows "\<exists>vd'. vk_present acquire vd = Inr vd' \<and>
           age_of vd' (swapchain_image_index vd) = 1 \<and>
           (\<forall>i < swapchain_image_count vd. i \<noteq> swapchain_image_index vd \<longrightarrow>
              (age_of vd i \<noteq> - 1 \<longrightarrow> age_of vd' i = age_of vd i + 1) \<and>
              (age_of vd i \<noteq> - 1 \<longrightarrow> sint (age_of vd i) < 2 ^ 31 - 1 \<longrightarrow>
                 sint (age_of vd' i) = sint (age_of vd i) + 1) \<and>
              (age_of vd i = - 1 \<longrightarrow> age_of vd' i = - 1))"
proof -
  from ok obtain imgs ls vs ages where
    f: "swapchain_images vd = Some imgs" "swapchain_image_layouts vd = Some ls"
       "swapchain_image_views vd = Some vs" "buffer_ages vd = Some ages" and
    n: "length imgs = swapchain_image_count vd" "length ls = swapchain_image_count vd"
       "length ages = swapchain_image_count vd"
       "swapchain_image_index vd < swapchain_image_count vd"
    by (auto simp: swapchain_consistent_def split: option.splits)
  define idx where "idx = swapchain_image_index vd"
  define n where "n = swapchain_image_count vd"
  have d: "distinct [0..<n]" by simp
  have b: "\<forall>i\<in>set [0..<n]. i < length (ages[idx := 1])" using n by (simp add: n_def)
  from bump_ages_spec [OF d b, of idx] obtain ages' where
    r: "bump_ages idx [0..<n] (ages[idx := 1]) = Inr ages'" and
    l: "length ages' = n" and
    v: "\<forall>j < n. ages' ! j =
         (if j \<noteq> idx \<and> (ages[idx := 1]) ! j \<noteq> - 1 then (ages[idx := 1]) ! j + 1
          else (ages[idx := 1]) ! j)"
    using n by (auto simp: n_def)
  have u: "update_buffer_ages idx n (buffer_ages vd) = Inr ages'"
    using f n r by (simp add: update_buffer_ages_def idx_def)
  have p: "vk_present acquire vd = Inr
     ((emit [VkCmd (CmdPipelineBarrier (imgs ! idx) VK_IMAGE_LAYOUT_COLOR_ATTACHMENT_OPTIMAL
                        VK_IMAGE_LAYOUT_PRESENT_SRC_KHR),
                      VkEndCommandBuffer (command_buffer vd),
                      VkQueueSubmit (queue vd) (command_buffer vd) [semaphore vd]
                        [semaphore vd] (queue_submit_fence vd),
                      VkQueuePresentKHR (queue vd) (swapchain vd) idx,
                      VkAcquireNextImageKHR (swapchain vd) (semaphore vd)
                        (acquire_next_image_fence vd),
                      VkWaitForFences (acquire_next_image_fence vd),
                      VkResetFences (acquire_next_image_fence vd)] vd)
               \<lparr>swapchain_image_layouts := Some (ls[idx := VK_IMAGE_LAYOUT_PRESENT_SRC_KHR]),
                buffer_ages := Some ages',
                swapchain_image_index :=
                  (case acquire of None \<Rightarrow> idx | Some next \<Rightarrow> next)\<rparr>)"
    using f n u by (simp add: vk_present_def array_get_def array_set_def idx_def [symmetric] n_def [symmetric] Let_def)
  have "ages' ! idx = 1" using v n by (simp add: idx_def n_def)
  moreover have "\<forall>i < n. i \<noteq> idx \<longrightarrow>
              (ages ! i \<noteq> - 1 \<longrightarrow> ages' ! i = ages ! i + 1) \<and>
              (ages ! i = - 1 \<longrightarrow> ages' ! i = - 1)"
    using v by simp
  moreover have "\<And>w :: int32. sint w < 2 ^ 31 - 1 \<Longrightarrow> sint (w + 1) = sint w + 1"
  proof -
    fix w :: int32
    assume h: "sint w < 2 ^ 31 - 1"
    have g: "- (2 ^ 31) \<le> sint w" using sint_ge [of w] by simp
    have "sint (w + 1) = signed_take_bit 31 (sint w + 1)"
      by (simp add: sint_word_add)
    also have "\<dots> = sint w + 1"
      using h g by (intro signed_take_bit_int_eq_self) simp_all
    finally show "sint (w + 1) = sint w + 1" .
  qed
  ultimately show ?thesis
    unfolding p by (simp add: age_of_def f idx_def [symmetric] n_def [symmetric])
qed


theorem present_buffer_ages_witness:
  "swapchain_consistent vd_three \<and>
   (\<exists>vd'. vk_present (Some 1) vd_three = Inr vd' \<and>
      age_of vd' 0 = 1 \<and> age_of vd' 1 = 2 \<and> age_of vd' 2 = - 1)"
proof -
  have h: "swapchain_consistent vd_three"
    by (simp add: swapchain_consistent_def vd_three_def vd_zero_def)
  have i: "swapchain_image_index vd_three = 0" "swapchain_image_count vd_three = 3"
    by (simp_all add: vd_three_def vd_zero_def)
  have a: "age_of vd_three 1 = 1" "age_of vd_three 2 = - 1"
    by (simp_all add: age_of_def vd_three_def vd_zero_def)
  from present_buffer_ages [OF h, of "Some 1"] obtain vd' where
    p: "vk_present (Some 1) vd_three = Inr vd'" and z: "age_of vd' 0 = 1" and
    r: "\<forall>i<3. i \<noteq> 0 \<longrightarrow>
          (age_of vd_three i \<noteq> - 1 \<longrightarrow> age_of vd' i = age_of vd_three i + 1) \<and>
          (age_of vd_three i = - 1 \<longrightarrow> age_of vd' i = - 1)"
    unfolding i by blast
  have "age_of vd' 1 = 2" using r [rule_format, of 1] a by simp
  moreover have "age_of vd' 2 = - 1" using r [rule_format, of 2] a by simp
  ultimately show ?thesis using h p z by blast
qed

section \<open>Draws\<close>

lemma before_draws_draw_rects:
  "before_draws p (map VkCmd (draw_rects l rs) @ rest) =
     map (\<lambda>r. Some (VkCmd (push_rect l r))) rs
     @ before_draws (if rs = [] then p else Some (VkCmd (CmdDraw 4 1 0 0))) rest"
  by (induction rs arbitrary: p) (simp_all add: push_rect_def)

lemma draws_append: "draws (xs @ ys) = draws xs + draws ys"
  by (induction xs) simp_all

lemma scissors_append: "scissors (xs @ ys) = scissors xs @ scissors ys"
  by (induction xs) (simp_all split: option.splits)

lemma draws_draw_rects: "draws (map VkCmd (draw_rects l rs)) = length rs"
  by (induction rs) (simp_all add: push_rect_def draws_append)

lemma scissors_draw_rects: "scissors (map VkCmd (draw_rects l rs)) = []"
  by (induction rs) (simp_all add: push_rect_def scissors_append)

lemma compose_pass_calls:
  "map VkCmd (compose_pass vd vi ic reg view) =
     [VkCmd (CmdBeginRendering (render_area_of (extents reg)) view),
      VkCmd (CmdBindPipeline (compose_pipeline vd)),
      VkCmd (CmdSetScissor (render_area_of (extents reg))),
      VkCmd (CmdBindDescriptorSets (compose_pipeline_layout vd) (descriptor_set vi)),
      VkCmd (CmdPushConstants (compose_pipeline_layout vd) VK_SHADER_STAGE_VERTEX_BIT 0 8
        (PushU32 [width vd, height vd])),
      VkCmd (CmdPushConstants (compose_pipeline_layout vd) VK_SHADER_STAGE_VERTEX_BIT 24 8
        (PushI32 [coord_x ic, coord_y ic]))]
     @ map VkCmd (draw_rects (compose_pipeline_layout vd) (rects reg))
     @ [VkCmd CmdEndRendering]"
  by (simp add: compose_pass_def)

lemma fill_pass_calls:
  "map VkCmd (fill_pass vd c reg view) =
     [VkCmd (CmdBeginRendering (render_area_of (extents reg)) view),
      VkCmd (CmdBindPipeline (fill_pipeline vd)),
      VkCmd (CmdSetScissor (render_area_of (extents reg))),
      VkCmd (CmdPushConstants (fill_pipeline_layout vd) VK_SHADER_STAGE_VERTEX_BIT 0 8
        (PushU32 [width vd, height vd])),
      VkCmd (CmdPushConstants (fill_pipeline_layout vd) VK_SHADER_STAGE_FRAGMENT_BIT 32 16
        (PushF32 c))]
     @ map VkCmd (draw_rects (fill_pipeline_layout vd) (rects reg))
     @ [VkCmd CmdEndRendering]"
  by (simp add: fill_pass_def)

lemma before_draws_append:
  "before_draws p (xs @ ys) = before_draws p xs @ before_draws (if xs = [] then p else Some (last xs)) ys"
  by (induction xs arbitrary: p) simp_all

lemma before_draws_upload: "before_draws p (compose_shm_upload vi ic e) = []"
  by (simp add: compose_shm_upload_def Let_def)

lemma draws_upload: "draws (compose_shm_upload vi ic e) = 0"
  by (simp add: compose_shm_upload_def Let_def draws_append)

lemma scissors_upload: "scissors (compose_shm_upload vi ic e) = []"
  by (simp add: compose_shm_upload_def Let_def scissors_append)

lemma compose_pass_law:
  assumes "rects reg \<noteq> []"
  shows "before_draws p (map VkCmd (compose_pass vd vi ic reg view)) = map (\<lambda>r. Some (VkCmd (push_rect (compose_pipeline_layout vd) r))) (rects reg)"
   and "draws (map VkCmd (compose_pass vd vi ic reg view)) = length (rects reg)"
   and "scissors (map VkCmd (compose_pass vd vi ic reg view)) = [render_area_of (extents reg)]"
  using assms unfolding compose_pass_calls
  by (simp_all add: before_draws_draw_rects draws_append draws_draw_rects scissors_append scissors_draw_rects)

lemma fill_pass_law:
  assumes "rects reg \<noteq> []"
  shows "before_draws p (map VkCmd (fill_pass vd c reg view)) = map (\<lambda>r. Some (VkCmd (push_rect (fill_pipeline_layout vd) r))) (rects reg)"
   and "draws (map VkCmd (fill_pass vd c reg view)) = length (rects reg)"
   and "scissors (map VkCmd (fill_pass vd c reg view)) = [render_area_of (extents reg)]"
  using assms unfolding fill_pass_calls
  by (simp_all add: before_draws_draw_rects draws_append draws_draw_rects scissors_append scissors_draw_rects)

lemma new_calls_emit [simp]: "new_calls vd (Inr (emit cs vd)) = cs"
  by (simp add: new_calls_def emit_def)

lemma new_calls_emit2 [simp]: "new_calls vd (Inr (emit cs2 (emit cs1 vd))) = cs1 @ cs2"
  by (simp add: new_calls_def emit_def)

lemma vk_compose_calls:
  assumes "rects reg \<noteq> []" and "array_get (swapchain_image_views vd) (swapchain_image_index vd) = Inr view"
  shows "\<exists>vd'. vk_compose vd vi ic reg = Inr vd' \<and>
     new_calls vd (Inr vd') = (if bind_pixmap_strategy vd = BIND_PIXMAP_STRATEGY_SHM then compose_shm_upload vi ic (extents reg) else [])
       @ map VkCmd (compose_pass vd vi ic reg view)"
proof -
  have e [simp]: "\<And>cs. swapchain_image_views (emit cs vd) = swapchain_image_views vd"
     "\<And>cs. swapchain_image_index (emit cs vd) = swapchain_image_index vd"
     "\<And>cs. compose_pass (emit cs vd) vi ic reg view = compose_pass vd vi ic reg view"
    by (simp_all add: emit_def compose_pass_def)
  show ?thesis using assms
    by (cases "rects reg") (simp_all add: vk_compose_def Let_def)
qed

lemma vk_fill_calls:
  assumes "rects reg \<noteq> []" and "array_get (swapchain_image_views vd) (swapchain_image_index vd) = Inr view"
  shows "vk_fill vd c reg = Inr (emit (map VkCmd (fill_pass vd c reg view)) vd)"
  using assms by (cases "rects reg") (simp_all add: vk_fill_def)

text \<open>
  C2, as amended. For a paint region of K >= 1 rectangles and a current image inside the
  view array, \<^verbatim>\<open>vk_compose\<close> and \<^verbatim>\<open>vk_fill\<close> each record exactly K draw calls; the call
  just before the k-th draw is the push-constant update carrying the bounds of the k-th
  rectangle; and the scissor is set once in the call, before any draw, to the bounding box
  of the region.
\<close>

theorem draw_count_law:
  assumes "rects reg \<noteq> []"
    and "array_get (swapchain_image_views vd) (swapchain_image_index vd) = Inr view"
  shows "draws (new_calls vd (vk_compose vd vi ic reg)) = length (rects reg) \<and>
         before_draws None (new_calls vd (vk_compose vd vi ic reg)) =
           map (\<lambda>r. Some (VkCmd (push_rect (compose_pipeline_layout vd) r))) (rects reg) \<and>
         scissors (new_calls vd (vk_compose vd vi ic reg)) = [render_area_of (extents reg)] \<and>
         draws (takeWhile (\<lambda>c. scissor_of c = None) (new_calls vd (vk_compose vd vi ic reg)))
           = 0 \<and>
         draws (new_calls vd (vk_fill vd c reg)) = length (rects reg) \<and>
         before_draws None (new_calls vd (vk_fill vd c reg)) =
           map (\<lambda>r. Some (VkCmd (push_rect (fill_pipeline_layout vd) r))) (rects reg) \<and>
         scissors (new_calls vd (vk_fill vd c reg)) = [render_area_of (extents reg)] \<and>
         draws (takeWhile (\<lambda>c. scissor_of c = None) (new_calls vd (vk_fill vd c reg))) = 0"
proof -
  from vk_compose_calls [OF assms, of vi ic] obtain vd' where
    c: "vk_compose vd vi ic reg = Inr vd'" and
    n: "new_calls vd (Inr vd') = (if bind_pixmap_strategy vd = BIND_PIXMAP_STRATEGY_SHM then compose_shm_upload vi ic (extents reg) else [])
       @ map VkCmd (compose_pass vd vi ic reg view)" by blast
  have f: "new_calls vd (vk_fill vd c reg) = map VkCmd (fill_pass vd c reg view)"
    by (simp add: vk_fill_calls [OF assms])
  have t1: "draws (takeWhile (\<lambda>c. scissor_of c = None)
              (compose_shm_upload vi ic (extents reg) @ map VkCmd (compose_pass vd vi ic reg view)))
            = 0"
    "draws (takeWhile (\<lambda>c. scissor_of c = None) (map VkCmd (compose_pass vd vi ic reg view)))
            = 0"
    "draws (takeWhile (\<lambda>c. scissor_of c = None) (map VkCmd (fill_pass vd c reg view))) = 0"
    unfolding compose_pass_calls fill_pass_calls
    by (simp_all add: compose_shm_upload_def Let_def)
  have main: "draws (new_calls vd (vk_compose vd vi ic reg)) = length (rects reg) \<and>
         before_draws None (new_calls vd (vk_compose vd vi ic reg)) =
           map (\<lambda>r. Some (VkCmd (push_rect (compose_pipeline_layout vd) r))) (rects reg) \<and>
         scissors (new_calls vd (vk_compose vd vi ic reg)) = [render_area_of (extents reg)] \<and>
         draws (new_calls vd (vk_fill vd c reg)) = length (rects reg) \<and>
         before_draws None (new_calls vd (vk_fill vd c reg)) =
           map (\<lambda>r. Some (VkCmd (push_rect (fill_pipeline_layout vd) r))) (rects reg) \<and>
         scissors (new_calls vd (vk_fill vd c reg)) = [render_area_of (extents reg)]"
    unfolding c n f
    using assms(1)
    by (simp add: compose_pass_law fill_pass_law draws_append scissors_append before_draws_append
          before_draws_upload draws_upload scissors_upload)
  have t: "draws (takeWhile (\<lambda>c. scissor_of c = None) (new_calls vd (vk_compose vd vi ic reg)))
           = 0"
    "draws (takeWhile (\<lambda>c. scissor_of c = None) (new_calls vd (vk_fill vd c reg))) = 0"
    unfolding c n f using t1 by simp_all
  show ?thesis using main t by simp
qed

theorem draw_count_law_witness:
  "rects region_two \<noteq> [] \<and>
   array_get (swapchain_image_views vd_three) (swapchain_image_index vd_three) = Inr 20 \<and>
   draws (new_calls vd_three (vk_compose vd_three vi_bound origin region_two)) = 2 \<and>
   draws (new_calls vd_three (vk_fill vd_three white region_two)) = 2"
proof -
  have r: "rects region_two \<noteq> []" by (simp add: region_two_def)
  have v: "array_get (swapchain_image_views vd_three) (swapchain_image_index vd_three) = Inr 20"
    by (simp add: array_get_def vd_three_def vd_zero_def)
  have l: "length (rects region_two) = 2" by (simp add: region_two_def)
  show ?thesis
    using draw_count_law [OF r v, of vi_bound origin white] r v l by simp
qed

text \<open>
  C2 as stated fails on two disjoint rectangles: two draws are recorded, but the only
  scissor update of the call carries the bounding box, which is the rectangle of neither
  draw.
\<close>

theorem draw_scissor_counterexample:
  "draws (new_calls vd_three (vk_compose vd_three vi_bound origin region_two)) = 2 \<and>
   scissors (new_calls vd_three (vk_compose vd_three vi_bound origin region_two)) =
     [render_area_of (box 0 0 3 3)] \<and>
   render_area_of (box 0 0 3 3) \<noteq> render_area_of (rects region_two ! 0) \<and>
   render_area_of (box 0 0 3 3) \<noteq> render_area_of (rects region_two ! 1)"
  by (simp add: vk_compose_def vd_three_def vd_zero_def region_two_def array_get_def
        new_calls_def emit_def compose_pass_def push_rect_def render_area_of_def box_def)

section \<open>Empty regions\<close>

text \<open>
  C6. With a paint region of no rectangles, \<^verbatim>\<open>vk_compose\<close> and \<^verbatim>\<open>vk_fill\<close> return
  normally and leave the whole state as it was: no call is made on the driver or the X
  server, so nothing is recorded, drawn or read back.
\<close>

theorem empty_region_noop:
  assumes "rects reg = []"
  shows "vk_compose vd vi ic reg = Inr vd \<and> vk_fill vd c reg = Inr vd"
  using assms by (simp add: vk_compose_def vk_fill_def)


theorem empty_region_noop_witness:
  "rects region_empty = [] \<and>
   vk_compose vd_three vi_bound origin region_empty = Inr vd_three \<and>
   vk_fill vd_three white region_empty = Inr vd_three"
proof -
  have r: "rects region_empty = []" by (simp add: region_empty_def)
  show ?thesis using empty_region_noop [OF r] r by simp
qed

section \<open>Segment size\<close>










section \<open>Binding and releasing images\<close>

lemmas example_defs = vd_three_def vd_zero_def vi_zero_def vi_bound_def bind_ok_def
  one_plane_def

lemma emit_emit: "emit cs2 (emit cs1 vd) = emit (cs1 @ cs2) vd"
  by (simp add: emit_def)

lemma created_views_append: "created_views (xs @ ys) = created_views xs @ created_views ys"
  by (induction xs rule: created_views.induct) simp_all

text \<open>The import step of either strategy only adds calls, none of them a view creation.\<close>

lemma dri3_emits:
  assumes "vk_bind_pixmap_dri3 e vd vi = Inr (ok, vi', vd')"
  shows "\<exists>cs. vd' = emit cs vd \<and> created_views cs = []"
  using assms
  by (auto simp: vk_bind_pixmap_dri3_def Let_def emit_emit split: option.splits if_splits intro!: exI)

lemma dri3_image:
  assumes "vk_bind_pixmap_dri3 e vd vi = Inr (ok, vi', vd')"
  shows "has_alpha vi' = has_alpha vi \<and> descriptor_set vi' = descriptor_set vi \<and> image_view vi' = image_view vi \<and> refcount vi' = refcount vi"
  using assms
  by (auto simp: vk_bind_pixmap_dri3_def Let_def split: option.splits if_splits)

lemma shm_emits:
  assumes "vk_bind_pixmap_shm e vd vi = Inr (ok, vi', vd')"
  shows "\<exists>cs. vd' = emit cs vd \<and> created_views cs = []"
  using assms
  by (auto simp: vk_bind_pixmap_shm_def Let_def emit_emit split: option.splits if_splits prod.splits intro!: exI)

lemma shm_image:
  assumes "vk_bind_pixmap_shm e vd vi = Inr (ok, vi', vd')"
  shows "has_alpha vi' = has_alpha vi \<and> descriptor_set vi' = descriptor_set vi \<and> image_view vi' = image_view vi \<and> refcount vi' = refcount vi"
  using assms
  by (auto simp: vk_bind_pixmap_shm_def Let_def split: option.splits if_splits prod.splits)

lemma bind_err_no_handle: "bind_err vd vi \<noteq> Inr (Some vi', vd')"
  by (simp add: bind_err_def)

lemma bind_finish_success:
  assumes "bind_finish e vd vi = Inr (Some vi', vd')"
  shows "\<exists>view dset cs.
           create_image_view e = Some view \<and> pool_allocate e vd = Some dset \<and>
           vi' = vi\<lparr>image_view := view, descriptor_set := dset\<rparr> \<and>
           calls vd' = calls vd @
             VkCreateImageView (image vi) (image_view_components vi) (Some view) # cs \<and>
           pool_allocated_sets vd' = pool_allocated_sets vd + 1 \<and>
           pool_max_sets vd' = pool_max_sets vd \<and>
           created_views cs = []"
  using assms
  by (auto simp: bind_finish_def Let_def bind_err_def emit_def pool_allocate_def
           split: option.splits if_splits)

lemma bind_success:
  assumes "vk_bind_pixmap e vd pm a own = Inr (Some vi, vd')"
  shows "\<exists>cs. calls vd' = calls vd @ cs \<and>
           created_views cs = [(image vi, image_view_components vi, Some (image_view vi))] \<and>
           has_alpha vi = (0 < a) \<and>
           pool_allocated_sets vd < pool_max_sets vd \<and>
           pool_allocated_sets vd' = pool_allocated_sets vd + 1 \<and>
           pool_max_sets vd' = pool_max_sets vd"
proof -
  define vi0 where "vi0 = vi_zero\<lparr>refcount := 1, has_alpha := 0 < a, pixmap := pm, owned := own\<rparr>"
  define imp where "imp = (case bind_pixmap_strategy vd of
              BIND_PIXMAP_STRATEGY_DRI3 \<Rightarrow> vk_bind_pixmap_dri3 e vd vi0
            | BIND_PIXMAP_STRATEGY_SHM \<Rightarrow> vk_bind_pixmap_shm e vd vi0)"
  have b: "vk_bind_pixmap e vd pm a own =
     (case imp of Inl f \<Rightarrow> Inl f
      | Inr (ok, vi1, vd1) \<Rightarrow> if \<not> ok then bind_err vd1 vi1 else bind_finish e vd1 vi1)"
    by (simp only: vk_bind_pixmap_def imp_def vi0_def Let_def)
  from assms b obtain vi1 vd1 where
    i: "imp = Inr (True, vi1, vd1)" and f: "bind_finish e vd1 vi1 = Inr (Some vi, vd')"
    by (auto simp: bind_err_def split: sum.splits prod.splits if_splits)
  have "\<exists>cs. vd1 = emit cs vd \<and> created_views cs = []"
    using i dri3_emits shm_emits unfolding imp_def
    by (cases "bind_pixmap_strategy vd") auto
  then obtain cs1 where v1: "vd1 = emit cs1 vd" and c1: "created_views cs1 = []" by blast
  have h1: "has_alpha vi1 = has_alpha vi0"
    using i dri3_image shm_image unfolding imp_def
    by (cases "bind_pixmap_strategy vd") auto
  from bind_finish_success [OF f] obtain view dset cs2 where
    pa: "pool_allocate e vd1 = Some dset" and
    vi: "vi = vi1\<lparr>image_view := view, descriptor_set := dset\<rparr>" and
    vd': "calls vd' = calls vd1 @
            VkCreateImageView (image vi1) (image_view_components vi1) (Some view) # cs2"
      "pool_allocated_sets vd' = pool_allocated_sets vd1 + 1"
      "pool_max_sets vd' = pool_max_sets vd1" and
    c2: "created_views cs2 = []"
    by blast
  have comp: "image_view_components vi = image_view_components vi1" "image vi = image vi1"
    by (simp_all add: vi image_view_components_def)
  have "calls vd' = calls vd @
          (cs1 @ VkCreateImageView (image vi1) (image_view_components vi1) (Some view) # cs2)"
    by (simp add: vd' v1 emit_def)
  moreover have "created_views
      (cs1 @ VkCreateImageView (image vi1) (image_view_components vi1) (Some view) # cs2)
     = [(image vi, image_view_components vi, Some (image_view vi))]"
    using comp by (simp add: created_views_append c1 c2) (simp add: vi)
  moreover have "has_alpha vi = (0 < a)" using h1 by (simp add: vi vi0_def)
  moreover have "pool_allocated_sets vd < pool_max_sets vd"
    using pa by (simp add: pool_allocate_def v1 emit_def split: if_splits)
  moreover have "pool_allocated_sets vd' = pool_allocated_sets vd + 1" "pool_max_sets vd' = pool_max_sets vd"
    by (simp_all add: vd' v1 emit_def)
  ultimately show ?thesis by blast
qed



lemma bind_ok_dri3:
  "\<exists>vi vd'. vk_bind_pixmap bind_ok vd_three 77 (0 :: int) False = Inr (Some vi, vd')"
  by (simp add: example_defs vk_bind_pixmap_def vk_bind_pixmap_dri3_def Let_def
        bind_finish_def emit_def pool_allocate_def)

text \<open>
  C9. Whenever \<^verbatim>\<open>vk_bind_pixmap\<close> returns an image, it created exactly one view, on that
  image, which is the view of the image returned. Its components are B, G, R for red,
  green, blue (red and blue swapped), and its alpha component is either the source alpha
  or the constant one: the constant one exactly when \<^verbatim>\<open>alpha_size\<close> is not greater than
  0, which for a size, a number that is not negative, is exactly when it is zero.
\<close>

theorem image_view_swizzle:
  assumes "vk_bind_pixmap e vd pm a own = Inr (Some vi, vd')"
  shows "\<exists>c. created_views (drop (length (calls vd)) (calls vd')) =
               [(image vi, c, Some (image_view vi))] \<and>
           swz_r c = VK_COMPONENT_SWIZZLE_B \<and> swz_g c = VK_COMPONENT_SWIZZLE_G \<and>
           swz_b c = VK_COMPONENT_SWIZZLE_R \<and>
           (swz_a c = VK_COMPONENT_SWIZZLE_ONE \<or> swz_a c = VK_COMPONENT_SWIZZLE_A) \<and>
           (swz_a c = VK_COMPONENT_SWIZZLE_ONE \<longleftrightarrow> \<not> 0 < a) \<and>
           (0 \<le> a \<longrightarrow> (swz_a c = VK_COMPONENT_SWIZZLE_ONE \<longleftrightarrow> a = 0))"
proof -
  from bind_success [OF assms] obtain cs where
    c: "calls vd' = calls vd @ cs" and
    v: "created_views cs = [(image vi, image_view_components vi, Some (image_view vi))]" and
    h: "has_alpha vi = (0 < a)" by blast
  have "created_views (drop (length (calls vd)) (calls vd')) =
          [(image vi, image_view_components vi, Some (image_view vi))]"
    using c v by simp
  then show ?thesis using h
    by (auto simp: image_view_components_def)
qed

theorem image_view_swizzle_witness:
  "\<exists>vi vd' c.
     vk_bind_pixmap bind_ok vd_three 77 (0 :: int) False = Inr (Some vi, vd') \<and>
     created_views (drop (length (calls vd_three)) (calls vd')) =
       [(image vi, c, Some (image_view vi))] \<and>
     swz_r c = VK_COMPONENT_SWIZZLE_B \<and> swz_b c = VK_COMPONENT_SWIZZLE_R \<and>
     swz_a c = VK_COMPONENT_SWIZZLE_ONE"
proof -
  obtain vi vd' where b: "vk_bind_pixmap bind_ok vd_three 77 (0 :: int) False = Inr (Some vi, vd')"
    using bind_ok_dri3 by blast
  from image_view_swizzle [OF b] b show ?thesis by auto
qed







text \<open>
  C7 fails in the shared-memory strategy when the geometry request gets no reply: nothing
  was acquired, yet the release detaches address 0 and removes segment 0, since the zeroed
  image does not hold the sentinels \<^verbatim>\<open>(void *)-1\<close> and \<^verbatim>\<open>-1\<close> that
  \<^verbatim>\<open>vk_release_image_shm\<close> tests for.
\<close>

theorem release_unacquired_shm:
  "bind_calls vd_shm (vk_bind_pixmap (bind_ok\<lparr>get_geometry := None\<rparr>) vd_shm 77 (0 :: int) False)
     = [X (XcbGetGeometry 77), VkDeviceWaitIdle 1, Sys (Shmdt 0), Sys (ShmctlRmid 0)]"
  by (simp add: example_defs vd_shm_def vk_bind_pixmap_def vk_bind_pixmap_shm_def Let_def
        bind_err_def vk_release_image_def vk_release_image_shm_def bind_calls_def emit_def)


section \<open>Strategy selection\<close>

lemmas init_defs = init_ok_def gpu_new_def gpu_old_def gpu_host_only_def session_both_def
  vd_zero_def

lemma upt2: "[0..<2] = [0, 1]"
  by (simp add: upt_rec)

lemmas step_defs = vk_init_def and_then_def vk_create_instance_def vk_create_surface_def
  vk_create_device_def choose_strategy_def common_extension_names_def dri3_extension_names_def
  shm_extension_names_def VK_API_VERSION_1_3_def vk_create_fences_and_semaphore_def
  vk_create_swapchain_def vk_create_descriptor_pool_def vk_create_pipelines_def
  vk_create_command_pool_def emit_def Let_def upt2 identity_components_def

lemma select_find:
  "vk_select_physical_device vd ds names =
     (case find (suitable names) ds of
        None \<Rightarrow> vd
      | Some d \<Rightarrow>
          if bind_pixmap_strategy vd = BIND_PIXMAP_STRATEGY_SHM
          then vd\<lparr>physical_device := pd_handle d,
                  min_imported_host_pointer_alignment := pd_minImportedHostPointerAlignment d\<rparr>
          else vd\<lparr>physical_device := pd_handle d\<rparr>)"
  by (induction ds) (auto simp: suitable_def supports_def Let_def not_less split: option.splits)

lemma find_Some_in: "find P xs = Some x \<Longrightarrow> x \<in> set xs \<and> P x"
  by (auto simp: find_Some_iff)

lemma choose_dri3:
  assumes "dri3_exists s" and "find (suitable zero_copy_names) ds = Some d"
    and "pd_handle d \<noteq> VK_NULL_HANDLE"
  shows "snd (choose_strategy s ds vd) =
           vd\<lparr>bind_pixmap_strategy := BIND_PIXMAP_STRATEGY_DRI3, physical_device := pd_handle d\<rparr>"
  using assms
  by (simp add: choose_strategy_def select_find zero_copy_names_def)

lemma choose_shm:
  assumes "\<not> (dri3_exists s \<and> find (suitable zero_copy_names) ds \<noteq> None)"
    and "physical_device vd = VK_NULL_HANDLE" and "shm_exists s"
    and "find (suitable shared_memory_names) ds = Some d"
  shows "snd (choose_strategy s ds vd) =
           vd\<lparr>bind_pixmap_strategy := BIND_PIXMAP_STRATEGY_SHM, physical_device := pd_handle d,
              min_imported_host_pointer_alignment := pd_minImportedHostPointerAlignment d\<rparr>"
  using assms
  by (cases "dri3_exists s")
     (simp_all add: choose_strategy_def select_find zero_copy_names_def shared_memory_names_def)

lemma choose_none:
  assumes "\<not> (dri3_exists s \<and> find (suitable zero_copy_names) ds \<noteq> None)"
    and "\<not> (shm_exists s \<and> find (suitable shared_memory_names) ds \<noteq> None)"
    and "physical_device vd = VK_NULL_HANDLE"
  shows "physical_device (snd (choose_strategy s ds vd)) = VK_NULL_HANDLE"
  using assms
  by (cases "dri3_exists s"; cases "shm_exists s")
     (simp_all add: choose_strategy_def select_find zero_copy_names_def shared_memory_names_def)

lemma find_iff: "(find P xs \<noteq> None) = (\<exists>x\<in>set xs. P x)"
  by (auto simp: find_None_iff)

lemma choose_strategy_result:
  assumes h: "\<forall>d\<in>set ds. pd_handle d \<noteq> VK_NULL_HANDLE" and z: "physical_device vd = VK_NULL_HANDLE"
  shows "(dri3_exists s \<and> (\<exists>d\<in>set ds. suitable zero_copy_names d) \<longrightarrow>
           bind_pixmap_strategy (snd (choose_strategy s ds vd)) = BIND_PIXMAP_STRATEGY_DRI3 \<and>
           physical_device (snd (choose_strategy s ds vd)) \<noteq> VK_NULL_HANDLE) \<and>
         (\<not> (dri3_exists s \<and> (\<exists>d\<in>set ds. suitable zero_copy_names d)) \<and>
          shm_exists s \<and> (\<exists>d\<in>set ds. suitable shared_memory_names d) \<longrightarrow>
           bind_pixmap_strategy (snd (choose_strategy s ds vd)) = BIND_PIXMAP_STRATEGY_SHM \<and>
           physical_device (snd (choose_strategy s ds vd)) \<noteq> VK_NULL_HANDLE) \<and>
         (\<not> (dri3_exists s \<and> (\<exists>d\<in>set ds. suitable zero_copy_names d)) \<and>
          \<not> (shm_exists s \<and> (\<exists>d\<in>set ds. suitable shared_memory_names d)) \<longrightarrow>
           physical_device (snd (choose_strategy s ds vd)) = VK_NULL_HANDLE)"
proof (intro conjI impI)
  assume a: "dri3_exists s \<and> (\<exists>d\<in>set ds. suitable zero_copy_names d)"
  then obtain d where d: "find (suitable zero_copy_names) ds = Some d"
    using find_iff [of "suitable zero_copy_names" ds] by auto
  then have nz: "pd_handle d \<noteq> VK_NULL_HANDLE" using h find_Some_in by metis
  from a d nz show "bind_pixmap_strategy (snd (choose_strategy s ds vd)) = BIND_PIXMAP_STRATEGY_DRI3"
    "physical_device (snd (choose_strategy s ds vd)) \<noteq> VK_NULL_HANDLE"
    by (simp_all add: choose_dri3)
next
  assume a: "\<not> (dri3_exists s \<and> (\<exists>d\<in>set ds. suitable zero_copy_names d)) \<and>
          shm_exists s \<and> (\<exists>d\<in>set ds. suitable shared_memory_names d)"
  then obtain d where d: "find (suitable shared_memory_names) ds = Some d"
    using find_iff [of "suitable shared_memory_names" ds] by auto
  then have nz: "pd_handle d \<noteq> VK_NULL_HANDLE" using h find_Some_in by metis
  have n: "\<not> (dri3_exists s \<and> find (suitable zero_copy_names) ds \<noteq> None)"
    using a by (auto simp: find_None_iff)
  from choose_shm [OF n z _ d] a nz
  show "bind_pixmap_strategy (snd (choose_strategy s ds vd)) = BIND_PIXMAP_STRATEGY_SHM"
    "physical_device (snd (choose_strategy s ds vd)) \<noteq> VK_NULL_HANDLE"
    by simp_all
next
  assume a: "\<not> (dri3_exists s \<and> (\<exists>d\<in>set ds. suitable zero_copy_names d)) \<and>
          \<not> (shm_exists s \<and> (\<exists>d\<in>set ds. suitable shared_memory_names d))"
  then show "physical_device (snd (choose_strategy s ds vd)) = VK_NULL_HANDLE"
    using choose_none [OF _ _ z, of s ds] by (auto simp: find_None_iff)
qed

lemma create_device_strategy:
  assumes "enumerate_physical_device_count_ok e" and "physical_devices e = Some ds"
  shows "bind_pixmap_strategy (snd (vk_create_device e s vd)) =
           bind_pixmap_strategy (snd (choose_strategy s ds vd))"
    and "fst (vk_create_device e s vd) \<Longrightarrow>
           physical_device (snd (choose_strategy s ds vd)) \<noteq> VK_NULL_HANDLE"
  using assms
  by (auto simp: vk_create_device_def Let_def emit_def split: option.splits prod.splits if_splits)

lemma create_device_true:
  assumes "vk_create_device e s vd = (True, vd')"
  shows "enumerate_physical_device_count_ok e \<and> physical_devices e \<noteq> None"
  using assms
  by (auto simp: vk_create_device_def split: option.splits if_splits)

lemma instance_keeps:
  "physical_device (snd (vk_create_instance e vd)) = physical_device vd"
  by (simp add: vk_create_instance_def emit_def split: option.splits)

lemma surface_keeps:
  "physical_device (snd (vk_create_surface e vd)) = physical_device vd"
  by (simp add: vk_create_surface_def emit_def Let_def split: option.splits)

lemma fences_keep:
  "bind_pixmap_strategy (snd (vk_create_fences_and_semaphore e vd)) = bind_pixmap_strategy vd"
  by (simp add: vk_create_fences_and_semaphore_def emit_def Let_def split: option.splits)

lemma swapchain_views_keep:
  "bind_pixmap_strategy (snd (swapchain_views e is vd)) = bind_pixmap_strategy vd"
  by (induction "is" arbitrary: vd) (simp_all add: emit_def Let_def split: option.splits)

lemma swapchain_keeps:
  "bind_pixmap_strategy (snd (vk_create_swapchain e v vd)) = bind_pixmap_strategy vd"
proof -
  have "\<And>x. bind_pixmap_strategy (snd (case x of (False, vd5) \<Rightarrow> (False, vd5) | (True, vd5) \<Rightarrow> 
     (let vd6 = emit [VkAcquireNextImageKHR (swapchain vd5) (semaphore vd5)
                        (acquire_next_image_fence vd5)] vd5 in
      case acquire_next_image e of
        None \<Rightarrow> (False, vd6)
      | Some idx \<Rightarrow>
     (let vd7 = emit [VkWaitForFences (acquire_next_image_fence vd6)]
                  (vd6\<lparr>swapchain_image_index := idx\<rparr>) in
      if \<not> wait_acquire_fence e then (False, vd7)
      else
     (let vd8 = emit [VkResetFences (acquire_next_image_fence vd7)] vd7 in
      (reset_acquire_fence e, vd8)))))) = bind_pixmap_strategy (snd x)"
    by (auto simp: emit_def Let_def split: prod.splits bool.splits option.splits)
  then show ?thesis
    by (simp add: vk_create_swapchain_def Let_def swapchain_views_keep emit_def
          split: option.splits prod.splits)
qed

lemma pool_keeps:
  "bind_pixmap_strategy (snd (vk_create_descriptor_pool e vd)) = bind_pixmap_strategy vd"
  by (simp add: vk_create_descriptor_pool_def emit_def Let_def split: option.splits)

lemma pipelines_keep:
  "bind_pixmap_strategy (snd (vk_create_pipelines e vd)) = bind_pixmap_strategy vd"
  by (simp add: vk_create_pipelines_def emit_def Let_def split: option.splits)

lemma command_pool_keeps:
  "bind_pixmap_strategy (snd (vk_create_command_pool e vd)) = bind_pixmap_strategy vd"
  by (simp add: vk_create_command_pool_def emit_def Let_def split: option.splits)

lemma and_then_Inr:
  "and_then r step = Inr vd' \<longleftrightarrow> (\<exists>vd. r = Inr vd \<and> step vd = (True, vd'))"
  by (auto simp: and_then_def split: sum.splits prod.splits bool.splits)

lemma and_then_Inl: "isl r \<Longrightarrow> isl (and_then r step)"
  by (auto simp: and_then_def split: sum.splits)

lemma and_then_fail: "(\<And>vd. r = Inr vd \<Longrightarrow> \<not> fst (step vd)) \<Longrightarrow> isl (and_then r step)"
  by (auto simp: and_then_def split: sum.splits prod.splits bool.splits)

lemma init_success:
  assumes "vk_init e s = Inr vd'"
  shows "\<exists>vd2 vd3. physical_device vd2 = VK_NULL_HANDLE \<and> vk_create_device e s vd2 = (True, vd3) \<and>
           bind_pixmap_strategy vd' = bind_pixmap_strategy vd3"
proof -
  from assms obtain vd1 vd2 vd3 vd4 vd5 vd6 vd7 where
    s1: "vk_create_instance e vd_zero = (True, vd1)" and
    s2: "vk_create_surface e vd1 = (True, vd2)" and
    s3: "vk_create_device e s vd2 = (True, vd3)" and
    s4: "vk_create_fences_and_semaphore e vd3 = (True, vd4)" and
    s5: "vk_create_swapchain e (vsync s) vd4 = (True, vd5)" and
    s6: "vk_create_descriptor_pool e vd5 = (True, vd6)" and
    s7: "vk_create_pipelines e vd6 = (True, vd7)" and
    s8: "vk_create_command_pool e vd7 = (True, vd')"
    unfolding vk_init_def and_then_Inr by auto
  have "physical_device vd2 = VK_NULL_HANDLE"
    using instance_keeps [of e vd_zero] surface_keeps [of e vd1] s1 s2
    by (simp add: vd_zero_def)
  moreover have "bind_pixmap_strategy vd' = bind_pixmap_strategy vd3"
    using fences_keep [of e vd3] swapchain_keeps [of e "vsync s" vd4] pool_keeps [of e vd5]
      pipelines_keep [of e vd6] command_pool_keeps [of e vd7] s4 s5 s6 s7 s8
    by simp
  ultimately show ?thesis using s3 by blast
qed

lemma init_failure:
  assumes "\<And>vd2. physical_device vd2 = VK_NULL_HANDLE \<Longrightarrow> \<not> fst (vk_create_device e s vd2)"
  shows "isl (vk_init e s)"
proof -
  have "isl (and_then (and_then (and_then (Inr vd_zero) (vk_create_instance e))
       (vk_create_surface e)) (vk_create_device e s))"
  proof (rule and_then_fail)
    fix vd2
    assume "and_then (and_then (Inr vd_zero) (vk_create_instance e)) (vk_create_surface e) = Inr vd2"
    then obtain vd1 where s1: "vk_create_instance e vd_zero = (True, vd1)" and
      s2: "vk_create_surface e vd1 = (True, vd2)"
      unfolding and_then_Inr by auto
    have "physical_device vd2 = VK_NULL_HANDLE"
      using instance_keeps [of e vd_zero] surface_keeps [of e vd1] s1 s2
      by (simp add: vd_zero_def)
    then show "\<not> fst (vk_create_device e s vd2)" by (rule assms)
  qed
  then show ?thesis unfolding vk_init_def by (simp add: and_then_Inl)
qed

lemma select_strategy:
  "bind_pixmap_strategy (vk_select_physical_device vd ds names) = bind_pixmap_strategy vd"
  by (simp add: select_find split: option.splits)

lemma create_device_level:
  assumes ok: "enumerate_physical_device_count_ok e" and ds: "physical_devices e = Some ds"
    and h: "\<forall>d\<in>set ds. pd_handle d \<noteq> VK_NULL_HANDLE"
    and z: "physical_device vd0 = VK_NULL_HANDLE"
  shows "(dri3_exists s \<and> (\<exists>d\<in>set ds. suitable zero_copy_names d) \<longrightarrow>
            bind_pixmap_strategy (snd (vk_create_device e s vd0)) = BIND_PIXMAP_STRATEGY_DRI3) \<and>
         (\<not> (dri3_exists s \<and> (\<exists>d\<in>set ds. suitable zero_copy_names d)) \<and> shm_exists s \<longrightarrow>
            bind_pixmap_strategy (snd (vk_create_device e s vd0)) = BIND_PIXMAP_STRATEGY_SHM) \<and>
         (\<not> (dri3_exists s \<and> (\<exists>d\<in>set ds. suitable zero_copy_names d)) \<and>
          \<not> (shm_exists s \<and> (\<exists>d\<in>set ds. suitable shared_memory_names d)) \<longrightarrow>
            \<not> fst (vk_create_device e s vd0))"
proof (intro conjI impI)
  note r = choose_strategy_result [OF h z, of s]
  note c = create_device_strategy(1) [OF ok ds, of s vd0]
  { assume "dri3_exists s \<and> (\<exists>d\<in>set ds. suitable zero_copy_names d)"
    then show "bind_pixmap_strategy (snd (vk_create_device e s vd0)) = BIND_PIXMAP_STRATEGY_DRI3"
      using r c by simp }
  { assume a: "\<not> (dri3_exists s \<and> (\<exists>d\<in>set ds. suitable zero_copy_names d)) \<and> shm_exists s"
    then have n: "\<not> (dri3_exists s \<and> find (suitable zero_copy_names) ds \<noteq> None)"
      by (auto simp: find_None_iff)
    have "bind_pixmap_strategy (snd (choose_strategy s ds vd0)) = BIND_PIXMAP_STRATEGY_SHM"
      using a n z
      by (cases "dri3_exists s")
         (simp_all add: choose_strategy_def select_find select_strategy zero_copy_names_def
            split: option.splits)
    then show "bind_pixmap_strategy (snd (vk_create_device e s vd0)) = BIND_PIXMAP_STRATEGY_SHM"
      using c by simp }
  { assume a: "\<not> (dri3_exists s \<and> (\<exists>d\<in>set ds. suitable zero_copy_names d)) \<and>
          \<not> (shm_exists s \<and> (\<exists>d\<in>set ds. suitable shared_memory_names d))"
    have p: "physical_device (snd (choose_strategy s ds vd0)) = VK_NULL_HANDLE"
      using r a by blast
    show "\<not> fst (vk_create_device e s vd0)"
      using ds p by (auto simp: vk_create_device_def Let_def split: prod.splits) }
qed

lemma init_strategy:
  assumes ds: "physical_devices e = Some ds"
    and h: "\<forall>d\<in>set ds. pd_handle d \<noteq> VK_NULL_HANDLE"
  shows "(\<forall>vd. vk_init e s = Inr vd \<longrightarrow>
            (dri3_exists s \<and> (\<exists>d\<in>set ds. suitable zero_copy_names d) \<longrightarrow>
               bind_pixmap_strategy vd = BIND_PIXMAP_STRATEGY_DRI3) \<and>
            (\<not> (dri3_exists s \<and> (\<exists>d\<in>set ds. suitable zero_copy_names d)) \<longrightarrow>
               bind_pixmap_strategy vd = BIND_PIXMAP_STRATEGY_SHM \<and> shm_exists s \<and>
               (\<exists>d\<in>set ds. suitable shared_memory_names d))) \<and>
         (\<not> (dri3_exists s \<and> (\<exists>d\<in>set ds. suitable zero_copy_names d)) \<and>
          \<not> (shm_exists s \<and> (\<exists>d\<in>set ds. suitable shared_memory_names d)) \<longrightarrow>
            isl (vk_init e s))"
proof (intro conjI allI impI)
  fix vd assume i: "vk_init e s = Inr vd"
  from init_success [OF i] obtain vd2 vd3 where
    z: "physical_device vd2 = VK_NULL_HANDLE" and
    c: "vk_create_device e s vd2 = (True, vd3)" and
    k: "bind_pixmap_strategy vd = bind_pixmap_strategy vd3" by blast
  have ok: "enumerate_physical_device_count_ok e" using create_device_true [OF c] by simp
  have st: "bind_pixmap_strategy vd = bind_pixmap_strategy (snd (choose_strategy s ds vd2))"
    using create_device_strategy(1) [OF ok ds, of s vd2] c k by simp
  have nz: "physical_device (snd (choose_strategy s ds vd2)) \<noteq> VK_NULL_HANDLE"
    using create_device_strategy(2) [OF ok ds, of s vd2] c by simp
  note r = choose_strategy_result [OF h z, of s]
  { assume "dri3_exists s \<and> (\<exists>d\<in>set ds. suitable zero_copy_names d)"
    then show "bind_pixmap_strategy vd = BIND_PIXMAP_STRATEGY_DRI3" using r st by simp }
  { assume n: "\<not> (dri3_exists s \<and> (\<exists>d\<in>set ds. suitable zero_copy_names d))"
    have q: "shm_exists s \<and> (\<exists>d\<in>set ds. suitable shared_memory_names d)"
      using r n nz by blast
    then show "shm_exists s" "\<exists>d\<in>set ds. suitable shared_memory_names d" by simp_all
    show "bind_pixmap_strategy vd = BIND_PIXMAP_STRATEGY_SHM" using r n q st by simp }
next
  assume n: "\<not> (dri3_exists s \<and> (\<exists>d\<in>set ds. suitable zero_copy_names d)) \<and>
          \<not> (shm_exists s \<and> (\<exists>d\<in>set ds. suitable shared_memory_names d))"
  show "isl (vk_init e s)"
  proof (rule init_failure)
    fix vd2 :: vulkan_data assume z: "physical_device vd2 = VK_NULL_HANDLE"
    have p: "physical_device (snd (choose_strategy s ds vd2)) = VK_NULL_HANDLE"
      using choose_strategy_result [OF h z, of s] n by blast
    show "\<not> fst (vk_create_device e s vd2)"
      using ds p by (auto simp: vk_create_device_def Let_def split: prod.splits)
  qed
qed

text \<open>
  C3, as amended. Let the enumeration give the devices \<open>ds\<close>, none with a null handle. A
  device is suitable for a set of extensions when it has API version 1.3 or later, answers
  both enumeration calls and supports the set. Whenever \<^verbatim>\<open>vk_init\<close> returns a backend,
  its strategy is zero-copy if the server has DRI3 and some device is suitable for the
  swap-chain and zero-copy extensions, and otherwise it is shared memory, the server has
  SHM and some device is suitable for the swap-chain and host-memory extensions. If
  neither holds, \<^verbatim>\<open>vk_init\<close> returns no backend. The same on \<^verbatim>\<open>vk_create_device\<close>, whether
  or not it succeeds: started without a physical device, it leaves the strategy zero-copy
  in the first case, shared memory whenever the first case fails and the server has SHM,
  and it fails when neither path finds a device.
\<close>

theorem strategy_selection:
  assumes ds: "physical_devices e = Some ds"
    and h: "\<forall>d\<in>set ds. pd_handle d \<noteq> VK_NULL_HANDLE"
  shows "(\<forall>vd. vk_init e s = Inr vd \<longrightarrow>
            (dri3_exists s \<and> (\<exists>d\<in>set ds. suitable zero_copy_names d) \<longrightarrow>
               bind_pixmap_strategy vd = BIND_PIXMAP_STRATEGY_DRI3) \<and>
            (\<not> (dri3_exists s \<and> (\<exists>d\<in>set ds. suitable zero_copy_names d)) \<longrightarrow>
               bind_pixmap_strategy vd = BIND_PIXMAP_STRATEGY_SHM \<and> shm_exists s \<and>
               (\<exists>d\<in>set ds. suitable shared_memory_names d))) \<and>
         (\<not> (dri3_exists s \<and> (\<exists>d\<in>set ds. suitable zero_copy_names d)) \<and>
          \<not> (shm_exists s \<and> (\<exists>d\<in>set ds. suitable shared_memory_names d)) \<longrightarrow>
            isl (vk_init e s)) \<and>
         (\<forall>vd0. enumerate_physical_device_count_ok e \<and> physical_device vd0 = VK_NULL_HANDLE \<longrightarrow>
            (dri3_exists s \<and> (\<exists>d\<in>set ds. suitable zero_copy_names d) \<longrightarrow>
               bind_pixmap_strategy (snd (vk_create_device e s vd0)) =
                 BIND_PIXMAP_STRATEGY_DRI3) \<and>
            (\<not> (dri3_exists s \<and> (\<exists>d\<in>set ds. suitable zero_copy_names d)) \<and> shm_exists s \<longrightarrow>
               bind_pixmap_strategy (snd (vk_create_device e s vd0)) =
                 BIND_PIXMAP_STRATEGY_SHM) \<and>
            (\<not> (dri3_exists s \<and> (\<exists>d\<in>set ds. suitable zero_copy_names d)) \<and>
             \<not> (shm_exists s \<and> (\<exists>d\<in>set ds. suitable shared_memory_names d)) \<longrightarrow>
               \<not> fst (vk_create_device e s vd0)))"
  using init_strategy [OF ds h, of s] create_device_level [OF _ ds h, of _ s]
  by (intro conjI allI impI; (elim conjE)?) blast+

theorem strategy_selection_witness:
  "physical_devices init_ok = Some [gpu_new] \<and> pd_handle gpu_new \<noteq> VK_NULL_HANDLE \<and>
   dri3_exists session_both \<and> suitable zero_copy_names gpu_new \<and>
   \<not> isl (vk_init init_ok session_both) \<and>
   bind_pixmap_strategy (projr (vk_init init_ok session_both)) = BIND_PIXMAP_STRATEGY_DRI3 \<and>
   pd_handle gpu_old \<noteq> VK_NULL_HANDLE \<and>
   \<not> suitable zero_copy_names gpu_old \<and> \<not> suitable shared_memory_names gpu_old \<and>
   isl (vk_init (init_ok\<lparr>physical_devices := Some [gpu_old]\<rparr>) session_both)"
proof -
  have d: "physical_devices init_ok = Some [gpu_new]" by (simp add: init_ok_def)
  have h: "\<forall>d\<in>set [gpu_new]. pd_handle d \<noteq> VK_NULL_HANDLE" by (simp add: gpu_new_def)
  have x: "dri3_exists session_both" by (simp add: session_both_def)
  have u: "\<exists>d\<in>set [gpu_new]. suitable zero_copy_names d"
    by (simp add: suitable_def supports_def zero_copy_names_def gpu_new_def
          common_extension_names_def dri3_extension_names_def VK_API_VERSION_1_3_def)
  have i: "\<not> isl (vk_init init_ok session_both)"
    by (simp add: init_defs step_defs)
  then have r: "vk_init init_ok session_both = Inr (projr (vk_init init_ok session_both))"
    by (cases "vk_init init_ok session_both") simp_all
  have d': "physical_devices (init_ok\<lparr>physical_devices := Some [gpu_old]\<rparr>) = Some [gpu_old]"
    by simp
  have h': "\<forall>d\<in>set [gpu_old]. pd_handle d \<noteq> VK_NULL_HANDLE"
    by (simp add: gpu_old_def gpu_new_def)
  have n: "\<not> (\<exists>d\<in>set [gpu_old]. suitable zero_copy_names d)"
    "\<not> (\<exists>d\<in>set [gpu_old]. suitable shared_memory_names d)"
    by (simp_all add: suitable_def gpu_old_def gpu_new_def VK_API_VERSION_1_3_def)
  show ?thesis
    using strategy_selection [OF d h, of session_both]
      strategy_selection [OF d' h', of session_both] d h h' x u i r n
    by auto
qed

text \<open>
  C3 as stated fails with two devices, the first of API version 1.2 with the swap-chain and
  zero-copy extensions, the second of version 1.3 with the host-memory extension only, on
  a server with both DRI3 and SHM: \<^verbatim>\<open>vk_init\<close> succeeds with the shared-memory strategy.
\<close>

theorem strategy_selection_counterexample:
  "dri3_exists session_both \<and> supports zero_copy_names gpu_old \<and>
   \<not> isl (vk_init (init_ok\<lparr>physical_devices := Some [gpu_old, gpu_host_only]\<rparr>)
            session_both) \<and>
   bind_pixmap_strategy
     (projr (vk_init (init_ok\<lparr>physical_devices := Some [gpu_old, gpu_host_only]\<rparr>)
               session_both)) = BIND_PIXMAP_STRATEGY_SHM"
  by (simp add: init_defs step_defs supports_def zero_copy_names_def)

section \<open>The submit fence\<close>



end
